theory Spec2Isabelle
  imports Complex_Main
begin

section \<open>Python strings\<close>

text \<open>
  A Python \<open>str\<close> is modelled as a \<open>string\<close> whose characters are the code points
  0 .. 255 (the Latin-1 range); \<open>len\<close> is \<open>length\<close>. Code points above 255 are outside
  the model.
\<close>

definition ord :: "char \<Rightarrow> nat" where
  "ord c = of_char c"

definition dquote :: char where
  "dquote = CHR 0x22"

definition bslash :: char where
  "bslash = CHR 0x5C"

definition squote :: char where
  "squote = CHR 0x27"

text \<open>\<open>str.lower()\<close>: the cased letters below 256 are A-Z and the Latin-1 capitals
  0xC0-0xDE without the multiplication sign 0xD7.\<close>

definition py_lower_char :: "char \<Rightarrow> char" where
  "py_lower_char c =
     (let n = ord c
      in if (65 \<le> n \<and> n \<le> 90) \<or> (192 \<le> n \<and> n \<le> 222 \<and> n \<noteq> 215)
         then char_of (n + 32) else c)"

definition py_lower :: "string \<Rightarrow> string" where
  "py_lower s = map py_lower_char s"

text \<open>\<open>str.strip()\<close> removes the white space of \<open>str.isspace\<close> at both ends.\<close>

definition py_isspace :: "char \<Rightarrow> bool" where
  "py_isspace c =
     (let n = ord c
      in (9 \<le> n \<and> n \<le> 13) \<or> (28 \<le> n \<and> n \<le> 32) \<or> n = 133 \<or> n = 160)"

definition py_strip :: "string \<Rightarrow> string" where
  "py_strip s = rev (dropWhile py_isspace (rev (dropWhile py_isspace s)))"

definition startswith :: "string \<Rightarrow> string \<Rightarrow> bool" where
  "startswith s p = (take (length p) s = p)"

text \<open>\<open>sub in s\<close> on strings.\<close>

fun contains :: "string \<Rightarrow> string \<Rightarrow> bool" where
  "contains [] sub = (sub = [])"
| "contains (c # cs) sub = (startswith (c # cs) sub \<or> contains cs sub)"

text \<open>\<open>s.split(sep)\<close> for a separator of one character: never the empty list.\<close>

fun split_char :: "char \<Rightarrow> string \<Rightarrow> string list" where
  "split_char sep [] = [[]]"
| "split_char sep (c # cs) =
     (if c = sep then [] # split_char sep cs
      else (case split_char sep cs of
              [] \<Rightarrow> [[c]]
            | w # ws \<Rightarrow> (c # w) # ws))"

fun join :: "string \<Rightarrow> string list \<Rightarrow> string" where
  "join sep [] = []"
| "join sep [x] = x"
| "join sep (x # y # ys) = x @ sep @ join sep (y # ys)"

fun show_nat :: "nat \<Rightarrow> string" where
  "show_nat n =
     (if n < 10 then [char_of (48 + n)]
      else show_nat (n div 10) @ [char_of (48 + n mod 10)])"

declare show_nat.simps [simp del]

definition show_int :: "int \<Rightarrow> string" where
  "show_int i = (if i < 0 then CHR ''-'' # show_nat (nat (- i)) else show_nat (nat i))"

definition hex_digit :: "nat \<Rightarrow> char" where
  "hex_digit d = (if d < 10 then char_of (48 + d) else char_of (87 + d))"

definition hex2 :: "nat \<Rightarrow> string" where
  "hex2 n = [hex_digit (n div 16 mod 16), hex_digit (n mod 16)]"

section \<open>Python values\<close>

text \<open>
  The values that reach the classifier, the router and the session store: \<open>None\<close>,
  booleans, integers, floats, strings, bytes, lists and dictionaries with string keys
  (in insertion order). A float is carried as the decimal text that denotes it.
\<close>

datatype pyval =
    PNone
  | PBool bool
  | PInt int
  | PFloat string
  | PStr string
  | PBytes string
  | PList "pyval list"
  | PDict "(string \<times> pyval) list"

text \<open>\<open>d[k] = v\<close> on a dictionary: an existing key keeps its position.\<close>

fun dict_set :: "(string \<times> 'v) list \<Rightarrow> string \<Rightarrow> 'v \<Rightarrow> (string \<times> 'v) list" where
  "dict_set [] k v = [(k, v)]"
| "dict_set ((k', v') # kvs) k v =
     (if k' = k then (k, v) # kvs else (k', v') # dict_set kvs k v)"

definition dict_get :: "(string \<times> 'v) list \<Rightarrow> string \<Rightarrow> 'v option" where
  "dict_get d k = map_of d k"

definition dict_keys :: "(string \<times> 'v) list \<Rightarrow> string list" where
  "dict_keys d = map fst d"

text \<open>\<open>repr\<close> of a string: single quotes unless the text has a single quote and no
  double quote; backslash, the chosen quote, tab, newline and carriage return are
  escaped, every other non-printable code point is written \<open>\xNN\<close>.\<close>

definition py_isprintable :: "char \<Rightarrow> bool" where
  "py_isprintable c =
     (let n = ord c in (32 \<le> n \<and> n \<le> 126) \<or> (161 \<le> n \<and> n \<noteq> 173))"

definition repr_char :: "char \<Rightarrow> bool \<Rightarrow> char \<Rightarrow> string" where
  "repr_char q ascii_only c =
     (if c = bslash then [bslash, bslash]
      else if c = q then [bslash, q]
      else if c = CHR 0x09 then [bslash, CHR ''t'']
      else if c = CHR 0x0A then [bslash, CHR ''n'']
      else if c = CHR 0x0D then [bslash, CHR ''r'']
      else if py_isprintable c \<and> (\<not> ascii_only \<or> ord c < 127) then [c]
      else [bslash, CHR ''x''] @ hex2 (ord c))"

definition repr_quote :: "string \<Rightarrow> char" where
  "repr_quote s = (if squote \<in> set s \<and> dquote \<notin> set s then dquote else squote)"

definition repr_str :: "string \<Rightarrow> string" where
  "repr_str s =
     (let q = repr_quote s in [q] @ concat (map (repr_char q False) s) @ [q])"

definition repr_bytes :: "string \<Rightarrow> string" where
  "repr_bytes s =
     (let q = repr_quote s in [CHR ''b'', q] @ concat (map (repr_char q True) s) @ [q])"

fun py_repr :: "pyval \<Rightarrow> string" where
  "py_repr PNone = ''None''"
| "py_repr (PBool b) = (if b then ''True'' else ''False'')"
| "py_repr (PInt i) = show_int i"
| "py_repr (PFloat t) = t"
| "py_repr (PStr s) = repr_str s"
| "py_repr (PBytes s) = repr_bytes s"
| "py_repr (PList xs) = ''['' @ join '', '' (map py_repr xs) @ '']''"
| "py_repr (PDict kvs) =
     ''{'' @ join '', '' (map (\<lambda>kv. repr_str (fst kv) @ '': '' @ py_repr (snd kv)) kvs) @ ''}''"

text \<open>\<open>str(v)\<close>: a string is itself, everything else prints as its \<open>repr\<close>.\<close>

definition py_str :: "pyval \<Rightarrow> string" where
  "py_str v = (case v of PStr s \<Rightarrow> s | _ \<Rightarrow> py_repr v)"

text \<open>Truth value of an object, as \<open>if content\<close> tests it. A float is zero when its
  mantissa has no digit other than 0.\<close>

definition float_text_zero :: "string \<Rightarrow> bool" where
  "float_text_zero t =
     list_all (\<lambda>c. c = CHR ''0'' \<or> c = CHR ''.'' \<or> c = CHR ''-'' \<or> c = CHR ''+'')
       (takeWhile (\<lambda>c. c \<noteq> CHR ''e'' \<and> c \<noteq> CHR ''E'') t)"

definition py_truthy :: "pyval \<Rightarrow> bool" where
  "py_truthy v =
     (case v of
        PNone \<Rightarrow> False
      | PBool b \<Rightarrow> b
      | PInt i \<Rightarrow> i \<noteq> 0
      | PFloat t \<Rightarrow> \<not> float_text_zero t
      | PStr s \<Rightarrow> s \<noteq> []
      | PBytes s \<Rightarrow> s \<noteq> []
      | PList xs \<Rightarrow> xs \<noteq> []
      | PDict kvs \<Rightarrow> kvs \<noteq> [])"

definition is_dict :: "pyval \<Rightarrow> bool" where
  "is_dict v = (case v of PDict _ \<Rightarrow> True | _ \<Rightarrow> False)"

definition is_list :: "pyval \<Rightarrow> bool" where
  "is_list v = (case v of PList _ \<Rightarrow> True | _ \<Rightarrow> False)"


section \<open>JSON text: \<open>json.loads\<close> and \<open>json.dumps\<close>\<close>

text \<open>
  \<open>json.loads\<close> of the Python standard library, as a tokenizer followed by a stack
  machine over the tokens. White space between tokens is space, tab, newline and
  carriage return. A scalar is a string, a number, \<open>true\<close>, \<open>false\<close>, \<open>null\<close>,
  \<open>NaN\<close>, \<open>Infinity\<close> or \<open>-Infinity\<close>. The decoder raises on any other text; the
  model returns \<open>None\<close> there.
\<close>

datatype token = TLBrace | TRBrace | TLBrack | TRBrack | TColon | TComma | TAtom pyval

definition json_ws :: "char \<Rightarrow> bool" where
  "json_ws c = (c = CHR '' '' \<or> c = CHR 0x09 \<or> c = CHR 0x0A \<or> c = CHR 0x0D)"

definition is_digit :: "char \<Rightarrow> bool" where
  "is_digit c = (48 \<le> ord c \<and> ord c \<le> 57)"

definition is_hex :: "char \<Rightarrow> bool" where
  "is_hex c =
     (is_digit c \<or> (65 \<le> ord c \<and> ord c \<le> 70) \<or> (97 \<le> ord c \<and> ord c \<le> 102))"

definition hex_val :: "char \<Rightarrow> nat" where
  "hex_val c =
     (if is_digit c then ord c - 48
      else if 97 \<le> ord c then ord c - 87 else ord c - 55)"

text \<open>A \<open>\uXXXX\<close> escape: code points above 255 have no counterpart among the
  strings of the model and are read as a question mark.\<close>

definition unicode_escape :: "char \<Rightarrow> char \<Rightarrow> char \<Rightarrow> char \<Rightarrow> char" where
  "unicode_escape a b c d =
     (let n = ((hex_val a * 16 + hex_val b) * 16 + hex_val c) * 16 + hex_val d
      in if n < 256 then char_of n else CHR ''?'')"

definition simple_escape :: "char \<Rightarrow> char option" where
  "simple_escape e =
     (if e = dquote then Some dquote
      else if e = bslash then Some bslash
      else if e = CHR ''/'' then Some CHR ''/''
      else if e = CHR ''b'' then Some (CHR 0x08)
      else if e = CHR ''f'' then Some (CHR 0x0C)
      else if e = CHR ''n'' then Some (CHR 0x0A)
      else if e = CHR ''r'' then Some (CHR 0x0D)
      else if e = CHR ''t'' then Some (CHR 0x09)
      else None)"

definition cons_fst :: "'a \<Rightarrow> ('a list \<times> 'b) option \<Rightarrow> ('a list \<times> 'b) option" where
  "cons_fst c r = map_option (\<lambda>(s, rest). (c # s, rest)) r"

text \<open>The text of a string after its opening quote: the decoded string and what
  follows the closing quote. Control characters below 0x20 are refused.\<close>

fun scan_string :: "string \<Rightarrow> (string \<times> string) option" where
  "scan_string [] = None"
| "scan_string (c # cs) =
     (if c = dquote then Some ([], cs)
      else if c = bslash then
        (case cs of
           [] \<Rightarrow> None
         | e # r \<Rightarrow>
             if e = CHR ''u'' then
               (case r of
                  a # b # x # d # r' \<Rightarrow>
                    if is_hex a \<and> is_hex b \<and> is_hex x \<and> is_hex d
                    then cons_fst (unicode_escape a b x d) (scan_string r')
                    else None
                | _ \<Rightarrow> None)
             else
               (case simple_escape e of
                  None \<Rightarrow> None
                | Some ch \<Rightarrow> cons_fst ch (scan_string r)))
      else if ord c < 32 then None
      else cons_fst c (scan_string cs))"

definition digits_val :: "string \<Rightarrow> nat" where
  "digits_val ds = foldl (\<lambda>acc c. acc * 10 + (ord c - 48)) 0 ds"

text \<open>A number is \<open>-?(0|[1-9]\d*)(\.\d+)?([eE][-+]?\d+)?\<close>; with a fraction or an
  exponent it is a float, otherwise an integer.\<close>

definition parse_number :: "string \<Rightarrow> pyval option" where
  "parse_number a =
     (let (neg, r0) = (case a of [] \<Rightarrow> (False, a)
                        | c # r \<Rightarrow> if c = CHR ''-'' then (True, r) else (False, a));
          ip = takeWhile is_digit r0;
          r1 = dropWhile is_digit r0;
          (frac, r2) = (case r1 of [] \<Rightarrow> (None, r1)
                        | c # r \<Rightarrow> if c = CHR ''.''
                                   then (Some (takeWhile is_digit r), dropWhile is_digit r)
                                   else (None, r1));
          (ex, r3) = (case r2 of [] \<Rightarrow> (None, r2)
                      | c # r \<Rightarrow>
                          if c = CHR ''e'' \<or> c = CHR ''E'' then
                            (let r' = (case r of [] \<Rightarrow> r
                                       | s # t \<Rightarrow> if s = CHR ''+'' \<or> s = CHR ''-'' then t else r)
                             in (Some (takeWhile is_digit r'), dropWhile is_digit r'))
                          else (None, r2))
      in if ip \<noteq> [] \<and> (ip = ''0'' \<or> hd ip \<noteq> CHR ''0'')
            \<and> frac \<noteq> Some [] \<and> ex \<noteq> Some [] \<and> r3 = []
         then Some (if frac = None \<and> ex = None
                    then PInt (if neg then - int (digits_val ip) else int (digits_val ip))
                    else PFloat a)
         else None)"

definition parse_atom :: "string \<Rightarrow> pyval option" where
  "parse_atom a =
     (if a = ''null'' then Some PNone
      else if a = ''true'' then Some (PBool True)
      else if a = ''false'' then Some (PBool False)
      else if a = ''NaN'' then Some (PFloat ''nan'')
      else if a = ''Infinity'' then Some (PFloat ''inf'')
      else if a = ''-Infinity'' then Some (PFloat ''-inf'')
      else parse_number a)"

text \<open>The characters of the scalars that are not strings. A scalar ends where the
  decoder needs white space, a comma, a colon or a bracket, none of which is one of
  these characters, so the maximal run of them is read as one scalar.\<close>

definition is_atom_char :: "char \<Rightarrow> bool" where
  "is_atom_char c =
     (is_digit c \<or> (65 \<le> ord c \<and> ord c \<le> 90) \<or> (97 \<le> ord c \<and> ord c \<le> 122)
      \<or> c = CHR ''+'' \<or> c = CHR ''-'' \<or> c = CHR ''.'')"

definition cons_tok :: "token \<Rightarrow> token list option \<Rightarrow> token list option" where
  "cons_tok t r = map_option (Cons t) r"

lemma cons_fst_Some:
  "cons_fst c r = Some (s, rest) \<longleftrightarrow> (\<exists>s'. r = Some (s', rest) \<and> s = c # s')"
  by (cases r) (auto simp: cons_fst_def)

lemma scan_string_length:
  "scan_string cs = Some (s, rest) \<Longrightarrow> length s + length rest < length cs"
proof (induction cs arbitrary: s rest rule: scan_string.induct)
  case 1
  then show ?case by simp
next
  case (2 c cs)
  from "2.prems" "2.IH" show ?case
    by (fastforce simp: cons_fst_Some split: if_splits list.splits option.splits)
qed

function tokenize :: "string \<Rightarrow> token list option" where
  "tokenize [] = Some []"
| "tokenize (c # cs) =
     (if json_ws c then tokenize cs
      else if c = CHR ''{'' then cons_tok TLBrace (tokenize cs)
      else if c = CHR ''}'' then cons_tok TRBrace (tokenize cs)
      else if c = CHR ''['' then cons_tok TLBrack (tokenize cs)
      else if c = CHR '']'' then cons_tok TRBrack (tokenize cs)
      else if c = CHR '':'' then cons_tok TColon (tokenize cs)
      else if c = CHR '','' then cons_tok TComma (tokenize cs)
      else if c = dquote then
        (case scan_string cs of
           None \<Rightarrow> None
         | Some (s, rest) \<Rightarrow> cons_tok (TAtom (PStr s)) (tokenize rest))
      else if is_atom_char c then
        (case parse_atom (c # takeWhile is_atom_char cs) of
           None \<Rightarrow> None
         | Some v \<Rightarrow> cons_tok (TAtom v) (tokenize (dropWhile is_atom_char cs)))
      else None)"
  by pat_completeness auto
termination
proof (relation "measure length")
  fix c cs x2 x y
  assume "scan_string cs = Some x2" "(x, y) = x2"
  then have "scan_string cs = Some (x, y)" by simp
  from scan_string_length[OF this]
  show "(y, c # cs) \<in> measure length" by simp
next
  fix c :: char and cs :: string
  have "length (dropWhile is_atom_char cs) \<le> length cs"
    by (rule length_dropWhile_le)
  then show "(dropWhile is_atom_char cs, c # cs) \<in> measure length" by simp
qed auto

declare tokenize.simps [simp del]

text \<open>The stack machine. A frame is an array or an object under construction, or a
  key whose value is being read.\<close>

datatype frame = ArrF "pyval list" | ObjF "(string \<times> pyval) list" | KeyF string

datatype pstate =
    WantValue
  | WantValueOrEnd
  | WantKeyOrEnd
  | WantKey
  | WantColon
  | AfterValue
  | Finished pyval

text \<open>A value is complete: it is the result, an element of the array on top, or the
  value of the pending key (a repeated key overwrites, as a \<open>dict\<close> does).\<close>

fun complete :: "pyval \<Rightarrow> frame list \<Rightarrow> (frame list \<times> pstate) option" where
  "complete v [] = Some ([], Finished v)"
| "complete v (ArrF items # st) = Some (ArrF (items @ [v]) # st, AfterValue)"
| "complete v (KeyF k # ObjF kvs # st) = Some (ObjF (dict_set kvs k v) # st, AfterValue)"
| "complete v _ = None"

fun open_value :: "token \<Rightarrow> frame list \<Rightarrow> (frame list \<times> pstate) option" where
  "open_value (TAtom v) st = complete v st"
| "open_value TLBrack st = Some (ArrF [] # st, WantValueOrEnd)"
| "open_value TLBrace st = Some (ObjF [] # st, WantKeyOrEnd)"
| "open_value _ st = None"

fun key_token :: "token \<Rightarrow> frame list \<Rightarrow> (frame list \<times> pstate) option" where
  "key_token (TAtom (PStr k)) st = Some (KeyF k # st, WantColon)"
| "key_token _ st = None"

fun pstep :: "frame list \<times> pstate \<Rightarrow> token \<Rightarrow> (frame list \<times> pstate) option" where
  "pstep (st, WantValue) t = open_value t st"
| "pstep (st, WantValueOrEnd) t =
     (case (t, st) of
        (TRBrack, ArrF items # st') \<Rightarrow> complete (PList items) st'
      | _ \<Rightarrow> open_value t st)"
| "pstep (st, WantKeyOrEnd) t =
     (case (t, st) of
        (TRBrace, ObjF kvs # st') \<Rightarrow> complete (PDict kvs) st'
      | _ \<Rightarrow> key_token t st)"
| "pstep (st, WantKey) t = key_token t st"
| "pstep (st, WantColon) t = (case t of TColon \<Rightarrow> Some (st, WantValue) | _ \<Rightarrow> None)"
| "pstep (st, AfterValue) t =
     (case (t, st) of
        (TComma, ArrF items # st') \<Rightarrow> Some (st, WantValue)
      | (TRBrack, ArrF items # st') \<Rightarrow> complete (PList items) st'
      | (TComma, ObjF kvs # st') \<Rightarrow> Some (st, WantKey)
      | (TRBrace, ObjF kvs # st') \<Rightarrow> complete (PDict kvs) st'
      | _ \<Rightarrow> None)"
| "pstep (st, Finished v) t = None"

fun prun :: "frame list \<times> pstate \<Rightarrow> token list \<Rightarrow> pyval option" where
  "prun (st, ps) [] = (case (st, ps) of ([], Finished v) \<Rightarrow> Some v | _ \<Rightarrow> None)"
| "prun cfg (t # ts) = (case pstep cfg t of None \<Rightarrow> None | Some cfg' \<Rightarrow> prun cfg' ts)"

definition json_loads :: "string \<Rightarrow> pyval option" where
  "json_loads s =
     (case tokenize s of None \<Rightarrow> None | Some ts \<Rightarrow> prun ([], WantValue) ts)"

section \<open>Binary64 floating point\<close>

text \<open>
  A finite Python \<open>float\<close> is the rational number it denotes. A decimal literal and
  the sum of two floats are rounded to the nearest binary64 number, ties to the even
  significand (53 bits, least exponent of a quantum \<open>-1074\<close>). The largest finite
  float is far above every value computed here, so overflow is not modelled.
\<close>

function bit_length :: "int \<Rightarrow> int" where
  "bit_length n = (if n \<le> 0 then 0 else 1 + bit_length (n div 2))"
  by pat_completeness auto
termination
  by (relation "measure nat") auto

declare bit_length.simps [simp del]

definition pow2 :: "int \<Rightarrow> rat" where
  "pow2 e = (if 0 \<le> e then 2 ^ nat e else 1 / 2 ^ nat (- e))"

text \<open>The exponent \<open>e\<close> with \<open>2 ^ e \<le> |x| < 2 ^ (e + 1)\<close>, for \<open>x\<close> other than 0.\<close>

definition binade :: "rat \<Rightarrow> int" where
  "binade x =
     (let (p, q) = quotient_of \<bar>x\<bar>;
          d = bit_length p - bit_length q
      in if pow2 d \<le> \<bar>x\<bar> then d else d - 1)"

definition round_half_even :: "rat \<Rightarrow> int" where
  "round_half_even r =
     (let f = \<lfloor>r\<rfloor>; d = r - of_int f
      in if d < 1 / 2 then f
         else if 1 / 2 < d then f + 1
         else if even f then f else f + 1)"

definition round_binary64 :: "rat \<Rightarrow> rat" where
  "round_binary64 x =
     (if x = 0 then 0
      else let q = max (binade x - 52) (- 1074)
           in of_int (round_half_even (x / pow2 q)) * pow2 q)"

definition float_add :: "rat \<Rightarrow> rat \<Rightarrow> rat" where
  "float_add a b = round_binary64 (a + b)"

text \<open>The float literals \<open>0.7\<close>, \<open>0.2\<close> and \<open>0.1\<close> of the source.\<close>

definition float_0_7 :: rat where
  "float_0_7 = round_binary64 (7 / 10)"

definition float_0_2 :: rat where
  "float_0_2 = round_binary64 (2 / 10)"

definition float_0_1 :: rat where
  "float_0_1 = round_binary64 (1 / 10)"

section \<open>Classifier (\<open>agents/classifier_agent.py\<close>)\<close>

definition format_patterns :: "(string \<times> string) list" where
  "format_patterns =
     [(''application/pdf'', ''pdf''),
      (''application/json'', ''json''),
      (''text/json'', ''json''),
      (''message/rfc822'', ''email''),
      (''text/plain'', ''text''),
      (''text/html'', ''html'')]"

record classification_metadata =
  md_file_type :: "string option"
  md_filename :: "string option"
  md_content_length :: nat

record classification =
  cls_format :: string
  cls_intent :: string
  cls_confidence :: rat
  cls_metadata :: classification_metadata

definition is_json_string :: "pyval \<Rightarrow> bool" where
  "is_json_string content =
     (case content of PStr s \<Rightarrow> json_loads s \<noteq> None | _ \<Rightarrow> False)"

definition looks_like_email :: "string \<Rightarrow> bool" where
  "looks_like_email content =
     list_ex (\<lambda>indicator. contains (py_lower content) indicator)
       [''from:'', ''to:'', ''subject:'', ''date:'', ''@'']"

text \<open>The three stages of \<open>_determine_format\<close>, in the order of the source: the file
  type, the extension of the file name, the structure of the content. A stage that
  does not decide gives \<open>None\<close> and the next one is tried.\<close>

definition file_type_format :: "string option \<Rightarrow> string option" where
  "file_type_format file_type =
     (case file_type of
        None \<Rightarrow> None
      | Some t \<Rightarrow> if t \<noteq> [] then map_of format_patterns t else None)"

definition extension_format :: "string option \<Rightarrow> string option" where
  "extension_format filename =
     (case filename of
        None \<Rightarrow> None
      | Some f \<Rightarrow>
          if f = [] then None
          else let extension = last (split_char CHR ''.'' (py_lower f))
               in if extension = ''pdf'' then Some ''pdf''
                  else if extension = ''json'' \<or> extension = ''jsonl'' then Some ''json''
                  else if extension = ''eml'' \<or> extension = ''msg'' then Some ''email''
                  else if extension = ''txt'' \<or> extension = ''text'' then Some ''text''
                  else if extension = ''html'' \<or> extension = ''htm'' then Some ''html''
                  else None)"

definition content_format :: "pyval \<Rightarrow> string" where
  "content_format content =
     (if is_dict content \<or> is_json_string content then ''json''
      else (case content of
              PStr s \<Rightarrow>
                if startswith (py_strip s) ''%PDF'' then ''pdf''
                else if looks_like_email s then ''email''
                else if startswith (py_strip s) ''<html'' then ''html''
                else ''text''
            | _ \<Rightarrow> ''unknown''))"

definition determine_format :: "pyval \<Rightarrow> string option \<Rightarrow> string option \<Rightarrow> string" where
  "determine_format content file_type filename =
     (case file_type_format file_type of
        Some f \<Rightarrow> f
      | None \<Rightarrow>
          (case extension_format filename of
             Some f \<Rightarrow> f
           | None \<Rightarrow> content_format content))"

text \<open>\<open>any(word in content_str for word in words)\<close>.\<close>

definition any_word_in :: "string list \<Rightarrow> string \<Rightarrow> bool" where
  "any_word_in ws content_str = list_ex (\<lambda>word. contains content_str word) ws"

definition keyword_intent :: "string \<Rightarrow> string option" where
  "keyword_intent content_str =
     (if any_word_in [''invoice'', ''bill'', ''payment'', ''charge''] content_str
        then Some ''invoice_processing''
      else if any_word_in [''resume'', ''cv'', ''experience'', ''education''] content_str
        then Some ''resume_parsing''
      else if any_word_in [''order'', ''purchase'', ''buy'', ''cart''] content_str
        then Some ''order_processing''
      else if any_word_in [''support'', ''help'', ''issue'', ''problem''] content_str
        then Some ''support_ticket''
      else if any_word_in [''application'', ''apply'', ''form''] content_str
        then Some ''form_processing''
      else None)"

definition determine_intent :: "pyval \<Rightarrow> string \<Rightarrow> pyval option \<Rightarrow> string" where
  "determine_intent content format_type metadata =
     (let content_str = py_lower (py_str content)
      in case keyword_intent content_str of
           Some i \<Rightarrow> i
         | None \<Rightarrow>
             if format_type = ''email'' then ''email_processing''
             else if format_type = ''pdf'' then ''document_processing''
             else ''general_processing'')"

definition calculate_confidence :: "pyval \<Rightarrow> string \<Rightarrow> string \<Rightarrow> rat" where
  "calculate_confidence content format_type intent =
     (let base_confidence = float_0_7;
          base_confidence =
            (if format_type = ''pdf'' \<or> format_type = ''json'' \<or> format_type = ''email''
             then float_add base_confidence float_0_2
             else base_confidence);
          base_confidence =
            (if intent \<noteq> ''general_processing''
             then float_add base_confidence float_0_1
             else base_confidence)
      in min base_confidence 1)"

definition classify ::
  "pyval \<Rightarrow> string option \<Rightarrow> string option \<Rightarrow> pyval option \<Rightarrow> classification" where
  "classify content file_type filename metadata =
     (let format_type = determine_format content file_type filename;
          intent = determine_intent content format_type metadata;
          confidence = calculate_confidence content format_type intent
      in \<lparr> cls_format = format_type,
           cls_intent = intent,
           cls_confidence = confidence,
           cls_metadata =
             \<lparr> md_file_type = file_type,
               md_filename = filename,
               md_content_length =
                 (if py_truthy content then length (py_str content) else 0) \<rparr> \<rparr>)"

text \<open>\<open>json.dumps\<close> with its default settings (\<open>ensure_ascii\<close>, separators \<open>", "\<close>
  and \<open>": "\<close>). Bytes are not serializable: the encoder raises \<open>TypeError\<close>, the
  model returns \<open>None\<close>.\<close>

definition json_escape_char :: "char \<Rightarrow> string" where
  "json_escape_char c =
     (if c = dquote then [bslash, dquote]
      else if c = bslash then [bslash, bslash]
      else if c = CHR 0x0A then [bslash, CHR ''n'']
      else if c = CHR 0x0D then [bslash, CHR ''r'']
      else if c = CHR 0x09 then [bslash, CHR ''t'']
      else if c = CHR 0x08 then [bslash, CHR ''b'']
      else if c = CHR 0x0C then [bslash, CHR ''f'']
      else if 32 \<le> ord c \<and> ord c \<le> 126 then [c]
      else [bslash, CHR ''u'', CHR ''0'', CHR ''0''] @ hex2 (ord c))"

definition json_string :: "string \<Rightarrow> string" where
  "json_string s = [dquote] @ concat (map json_escape_char s) @ [dquote]"

definition json_float :: "string \<Rightarrow> string" where
  "json_float t =
     (if t = ''nan'' then ''NaN''
      else if t = ''inf'' then ''Infinity''
      else if t = ''-inf'' then ''-Infinity''
      else t)"

fun json_dumps :: "pyval \<Rightarrow> string option" where
  "json_dumps PNone = Some ''null''"
| "json_dumps (PBool b) = Some (if b then ''true'' else ''false'')"
| "json_dumps (PInt i) = Some (show_int i)"
| "json_dumps (PFloat t) = Some (json_float t)"
| "json_dumps (PStr s) = Some (json_string s)"
| "json_dumps (PBytes s) = None"
| "json_dumps (PList xs) =
     map_option (\<lambda>ts. ''['' @ join '', '' ts @ '']'') (those (map json_dumps xs))"
| "json_dumps (PDict kvs) =
     map_option (\<lambda>ts. ''{'' @ join '', '' ts @ ''}'')
       (those (map (\<lambda>kv. map_option (\<lambda>t. json_string (fst kv) @ '': '' @ t)
                              (json_dumps (snd kv))) kvs))"

text \<open>The values \<open>json.dumps\<close> encodes: those without bytes in them.\<close>

fun serializable :: "pyval \<Rightarrow> bool" where
  "serializable (PBytes s) = False"
| "serializable (PList xs) = (\<forall>x \<in> set xs. serializable x)"
| "serializable (PDict kvs) = (\<forall>kv \<in> set kvs. serializable (snd kv))"
| "serializable _ = True"

section \<open>Exceptions\<close>

datatype py_error =
    TypeError string
  | ValueError string
  | KeyError string
  | IndexError string
  | AttributeError string
  | JSONDecodeError

text \<open>\<open>result[key]\<close> of what a strategy returned, when it returned a dictionary
  that has the key.\<close>

definition result_field :: "py_error + pyval \<Rightarrow> string \<Rightarrow> pyval option" where
  "result_field r key = (case r of Inr (PDict d) \<Rightarrow> dict_get d key | _ \<Rightarrow> None)"

section \<open>Session memory (\<open>memory/memory_manager.py\<close>)\<close>

text \<open>
  The Redis server, as far as the memory manager uses it: hashes (a mapping from
  field to text under a key), sets, and the time to live a key was given. A hash is
  kept as the list of its fields in the order they were first set.
\<close>

record redis =
  hashes :: "string \<Rightarrow> (string \<times> string) list option"
  sets :: "string \<Rightarrow> string set"
  expiry :: "string \<Rightarrow> nat option"

definition redis_empty :: redis where
  "redis_empty = \<lparr> hashes = (\<lambda>k. None), sets = (\<lambda>k. {}), expiry = (\<lambda>k. None) \<rparr>"

definition redis_exists :: "redis \<Rightarrow> string \<Rightarrow> bool" where
  "redis_exists rc key = (hashes rc key \<noteq> None)"

definition redis_hgetall :: "redis \<Rightarrow> string \<Rightarrow> (string \<times> string) list" where
  "redis_hgetall rc key = (case hashes rc key of None \<Rightarrow> [] | Some h \<Rightarrow> h)"

definition redis_hset :: "redis \<Rightarrow> string \<Rightarrow> (string \<times> string) list \<Rightarrow> redis" where
  "redis_hset rc key mapping =
     rc\<lparr> hashes := (hashes rc)
           (key := Some (foldl (\<lambda>h kv. dict_set h (fst kv) (snd kv))
                           (redis_hgetall rc key) mapping)) \<rparr>"

definition redis_sadd :: "redis \<Rightarrow> string \<Rightarrow> string \<Rightarrow> redis" where
  "redis_sadd rc key member = rc\<lparr> sets := (sets rc)(key := insert member (sets rc key)) \<rparr>"

definition redis_expire :: "redis \<Rightarrow> string \<Rightarrow> nat \<Rightarrow> redis" where
  "redis_expire rc key seconds =
     (if redis_exists rc key then rc\<lparr> expiry := (expiry rc)(key := Some seconds) \<rparr> else rc)"

definition session_prefix :: string where
  "session_prefix = ''session:''"

definition sessions_key :: string where
  "sessions_key = ''active_sessions''"

text \<open>\<open>json.dumps(v) if isinstance(v, (dict, list)) else str(v)\<close>, for every item of
  a dictionary; \<open>None\<close> when \<open>json.dumps\<close> raises.\<close>

definition redis_value :: "pyval \<Rightarrow> string option" where
  "redis_value v = (if is_dict v \<or> is_list v then json_dumps v else Some (py_str v))"

definition redis_mapping :: "(string \<times> pyval) list \<Rightarrow> (string \<times> string) list option" where
  "redis_mapping d = those (map (\<lambda>kv. map_option (Pair (fst kv)) (redis_value (snd kv))) d)"

text \<open>
  \<open>create_session\<close>. The identifier is \<open>str(uuid.uuid4())\<close>: the text drawn by the
  UUID generator is an input of the model (\<open>session_id\<close>), and \<open>timestamp\<close> is
  \<open>timestamp.isoformat()\<close>. The source compares the identifier with nothing.
\<close>

definition create_session ::
  "redis \<Rightarrow> string \<Rightarrow> string \<Rightarrow> string \<Rightarrow> string \<Rightarrow> string \<Rightarrow> (py_error + string) \<times> redis" where
  "create_session rc session_id source input_type intent timestamp =
     (let session_data =
            [(''session_id'', PStr session_id),
             (''source'', PStr source),
             (''input_type'', PStr input_type),
             (''intent'', PStr intent),
             (''created_at'', PStr timestamp),
             (''updated_at'', PStr timestamp),
             (''status'', PStr ''active''),
             (''processing_history'', PList []),
             (''extracted_data'', PDict []),
             (''metadata'', PDict [])];
          session_key = session_prefix @ session_id
      in case redis_mapping session_data of
           None \<Rightarrow> (Inl (TypeError ''not JSON serializable''), rc)
         | Some mapping \<Rightarrow>
             (let rc1 = redis_hset rc session_key mapping;
                  rc2 = redis_sadd rc1 sessions_key session_id;
                  rc3 = redis_expire rc2 session_key 86400
              in (Inr session_id, rc3)))"

text \<open>\<open>get_session\<close>: every field is given to \<open>json.loads\<close>; the parsed value is kept
  when that succeeds, the text when it raises.\<close>

definition parse_field :: "string \<Rightarrow> pyval" where
  "parse_field v = (case json_loads v of Some j \<Rightarrow> j | None \<Rightarrow> PStr v)"

definition get_session :: "redis \<Rightarrow> string \<Rightarrow> (string \<times> pyval) list option" where
  "get_session rc session_id =
     (let session_key = session_prefix @ session_id
      in if \<not> redis_exists rc session_key then None
         else Some (map (\<lambda>kv. (fst kv, parse_field (snd kv))) (redis_hgetall rc session_key)))"

text \<open>\<open>update_session\<close> writes \<open>updated_at\<close> into the dictionary it was given, so the
  caller's dictionary is returned too. \<open>now\<close> is \<open>datetime.now().isoformat()\<close>.\<close>

definition update_session ::
  "redis \<Rightarrow> string \<Rightarrow> string \<Rightarrow> (string \<times> pyval) list
     \<Rightarrow> (py_error + bool) \<times> (string \<times> pyval) list \<times> redis" where
  "update_session rc now session_id updates =
     (let session_key = session_prefix @ session_id
      in if \<not> redis_exists rc session_key then (Inr False, updates, rc)
         else (let updates' = dict_set updates ''updated_at'' (PStr now)
               in case redis_mapping updates' of
                    None \<Rightarrow> (Inl (TypeError ''not JSON serializable''), updates', rc)
                  | Some redis_updates \<Rightarrow>
                      (Inr True, updates', redis_hset rc session_key redis_updates)))"

text \<open>\<open>not session\<close> holds for \<open>None\<close> and for the empty dictionary.\<close>

definition add_processing_step ::
  "redis \<Rightarrow> string \<Rightarrow> string \<Rightarrow> string \<Rightarrow> pyval \<Rightarrow> (py_error + bool) \<times> redis" where
  "add_processing_step rc now session_id agent_name result =
     (case get_session rc session_id of
        None \<Rightarrow> (Inr False, rc)
      | Some session \<Rightarrow>
          if session = [] then (Inr False, rc)
          else (let processing_step =
                      PDict [(''agent'', PStr agent_name),
                             (''timestamp'', PStr now),
                             (''result'', result)]
                in case dict_get session ''processing_history'' of
                     None \<Rightarrow> (Inl (KeyError ''processing_history''), rc)
                   | Some (PList history) \<Rightarrow>
                       (case update_session rc now session_id
                               [(''processing_history'', PList (history @ [processing_step]))] of
                          (r, _, rc') \<Rightarrow> (r, rc'))
                   | Some _ \<Rightarrow> (Inl (AttributeError ''append''), rc)))"

definition store_extracted_data ::
  "redis \<Rightarrow> string \<Rightarrow> string \<Rightarrow> string \<Rightarrow> pyval \<Rightarrow> (py_error + bool) \<times> redis" where
  "store_extracted_data rc now session_id data_key data_value =
     (case get_session rc session_id of
        None \<Rightarrow> (Inr False, rc)
      | Some session \<Rightarrow>
          if session = [] then (Inr False, rc)
          else (case dict_get session ''extracted_data'' of
                  None \<Rightarrow> (Inl (KeyError ''extracted_data''), rc)
                | Some (PDict d) \<Rightarrow>
                    (case update_session rc now session_id
                            [(''extracted_data'', PDict (dict_set d data_key data_value))] of
                       (r, _, rc') \<Rightarrow> (r, rc'))
                | Some _ \<Rightarrow> (Inl (TypeError ''item assignment''), rc)))"

definition delete_session :: "redis \<Rightarrow> string \<Rightarrow> bool \<times> redis" where
  "delete_session rc session_id =
     (let session_key = session_prefix @ session_id;
          rc1 = rc\<lparr> sets := (sets rc)(sessions_key := sets rc sessions_key - {session_id}) \<rparr>
      in (redis_exists rc1 session_key,
          rc1\<lparr> hashes := (hashes rc1)(session_key := None),
               expiry := (expiry rc1)(session_key := None) \<rparr>))"

section \<open>External collaborators\<close>

text \<open>
  What the agents call and this repository does not define is an input of the model:
  the clock (\<open>datetime.now().isoformat()\<close>), the text generation client
  (\<open>LLMClient.generate\<close>: \<open>None\<close> when the call raises), the interpreter's \<open>eval\<close>
  (\<open>None\<close> when it raises), \<open>hashlib.md5(s.encode()).hexdigest()\<close>, the e-mail
  parser \<open>Parser().parsestr\<close> (the header items and the payload; \<open>None\<close> when it
  raises), the regular expression engine (\<open>re.search\<close> gives the groups of the
  first match, group 0 first; \<open>re.findall\<close> the matches), the PDF reader, and the
  text of a float quotient.
\<close>

text \<open>The regular expressions of the source, by the place where they stand: the
  sender's address and display name and the four signature patterns of the e-mail
  agent; the table, address, date, amount, phone and e-mail patterns of the PDF agent,
  numbered from 0 in the order of their lists.\<close>

datatype pattern =
    SenderAddress
  | SenderName
  | Signature nat
  | TableRow nat
  | Address nat
  | Date nat
  | Amount nat
  | Phone nat
  | EmailAddress

text \<open>The PDF reader either raises (opening the bytes, or walking the pages) or
  yields the pages, each with its text or \<open>None\<close> when \<open>extract_text\<close> raised.\<close>

datatype pdf_outcome = PdfError string | PdfPages "string option list"

record env =
  clock :: string
  llm_generate :: "string \<Rightarrow> string option"
  py_eval :: "string \<Rightarrow> pyval option"
  md5_hexdigest :: "string \<Rightarrow> string"
  parsestr :: "string \<Rightarrow> ((string \<times> string) list \<times> pyval) option"
  re_search :: "pattern \<Rightarrow> string \<Rightarrow> string list option"
  re_findall :: "pattern \<Rightarrow> string \<Rightarrow> string list"
  pdf_reader :: "pyval \<Rightarrow> pdf_outcome"
  float_div :: "nat \<Rightarrow> nat \<Rightarrow> string"

text \<open>An environment for concrete runs: every external call fails or finds nothing
  (the standard e-mail parser raises, so the plain text fallback is used; the PDF
  reader cannot open the bytes); the digest is a fixed text of 32 hexadecimal digits.\<close>

definition silent_env :: env where
  "silent_env =
     \<lparr> clock = ''2026-01-01T00:00:00'',
       llm_generate = (\<lambda>prompt. None),
       py_eval = (\<lambda>text. None),
       md5_hexdigest = (\<lambda>text. ''0123456789abcdef0123456789abcdef''),
       parsestr = (\<lambda>text. None),
       re_search = (\<lambda>p text. None),
       re_findall = (\<lambda>p text. []),
       pdf_reader = (\<lambda>content. PdfError ''EOF marker not found''),
       float_div = (\<lambda>a b. ''8.0'') \<rparr>"

text \<open>\<open>str(e)\<close> of an exception.\<close>

definition error_text :: "py_error \<Rightarrow> string" where
  "error_text err =
     (case err of
        TypeError m \<Rightarrow> m
      | ValueError m \<Rightarrow> m
      | KeyError k \<Rightarrow> repr_str k
      | IndexError m \<Rightarrow> m
      | AttributeError m \<Rightarrow> m
      | JSONDecodeError \<Rightarrow> ''Expecting value'')"

section \<open>JSON strategy (\<open>agents/json_agent.py\<close>)\<close>

definition json_error_result ::
  "env \<Rightarrow> redis \<Rightarrow> py_error \<Rightarrow> string \<Rightarrow> (py_error + pyval) \<times> redis" where
  "json_error_result e rc err session_id =
     (let error_result =
            PDict [(''status'', PStr ''error''),
                   (''error'', PStr (error_text err)),
                   (''data_type'', PStr ''json'')]
      in case add_processing_step rc (clock e) session_id ''JSONAgent'' error_result of
           (Inl err', rc') \<Rightarrow> (Inl err', rc')
         | (Inr _, rc') \<Rightarrow> (Inr error_result, rc'))"

definition json_process :: "env \<Rightarrow> redis \<Rightarrow> pyval \<Rightarrow> string \<Rightarrow> (py_error + pyval) \<times> redis" where
  "json_process e rc data session_id =
     (let result =
            PDict [(''status'', PStr ''success''),
                   (''data_type'', PStr ''json''),
                   (''keys_found'',
                      PList (case data of PDict kvs \<Rightarrow> map PStr (dict_keys kvs) | _ \<Rightarrow> [])),
                   (''total_fields'',
                      PInt (case data of PDict kvs \<Rightarrow> int (length kvs) | _ \<Rightarrow> 0)),
                   (''processed_data'', data)]
      in case add_processing_step rc (clock e) session_id ''JSONAgent'' result of
           (Inl err, rc1) \<Rightarrow> json_error_result e rc1 err session_id
         | (Inr _, rc1) \<Rightarrow>
             (case store_extracted_data rc1 (clock e) session_id ''json_data'' data of
                (Inl err, rc2) \<Rightarrow> json_error_result e rc2 err session_id
              | (Inr _, rc2) \<Rightarrow> (Inr result, rc2)))"

section \<open>E-mail strategy (\<open>agents/email_parser_agent.py\<close>)\<close>

text \<open>More string methods. \<open>str.split()\<close> without a separator gives the maximal
  runs of characters that are not white space.\<close>

fun words_from :: "string \<Rightarrow> string \<Rightarrow> string list" where
  "words_from cur [] = (if cur = [] then [] else [rev cur])"
| "words_from cur (c # cs) =
     (if py_isspace c then (if cur = [] then words_from [] cs else rev cur # words_from [] cs)
      else words_from (c # cur) cs)"

definition py_words :: "string \<Rightarrow> string list" where
  "py_words s = words_from [] s"

definition py_replace_char :: "char \<Rightarrow> char \<Rightarrow> string \<Rightarrow> string" where
  "py_replace_char old new s = map (\<lambda>c. if c = old then new else c) s"

definition py_strip_char :: "char \<Rightarrow> string \<Rightarrow> string" where
  "py_strip_char x s = rev (dropWhile (\<lambda>c. c = x) (rev (dropWhile (\<lambda>c. c = x) s)))"

definition py_is_upper_char :: "char \<Rightarrow> bool" where
  "py_is_upper_char c =
     (let n = ord c in (65 \<le> n \<and> n \<le> 90) \<or> (192 \<le> n \<and> n \<le> 222 \<and> n \<noteq> 215))"

definition py_is_lower_char :: "char \<Rightarrow> bool" where
  "py_is_lower_char c =
     (let n = ord c
      in (97 \<le> n \<and> n \<le> 122) \<or> (223 \<le> n \<and> n \<noteq> 247) \<or> n = 170 \<or> n = 181 \<or> n = 186)"

text \<open>\<open>str.isupper()\<close>: a cased character, and no lower case one.\<close>

definition py_isupper :: "string \<Rightarrow> bool" where
  "py_isupper s = (list_ex py_is_upper_char s \<and> \<not> list_ex py_is_lower_char s)"

text \<open>\<open>str.title()\<close>. A lower case letter whose capital is a code point below 256
  (a-z, and 0xE0-0xFE without the division sign) is capitalized at the start of a
  word; the other lower case characters of the Latin-1 range are left as they are.\<close>

definition py_upper_char :: "char \<Rightarrow> char" where
  "py_upper_char c =
     (let n = ord c
      in if (97 \<le> n \<and> n \<le> 122) \<or> (224 \<le> n \<and> n \<le> 254 \<and> n \<noteq> 247)
         then char_of (n - 32) else c)"

fun title_from :: "bool \<Rightarrow> string \<Rightarrow> string" where
  "title_from previous_is_cased [] = []"
| "title_from previous_is_cased (c # cs) =
     (if py_is_lower_char c then
        (if previous_is_cased then c else py_upper_char c) # title_from True cs
      else if py_is_upper_char c then
        (if previous_is_cased then py_lower_char c else c) # title_from True cs
      else c # title_from False cs)"

definition py_title :: "string \<Rightarrow> string" where
  "py_title s = title_from False s"

text \<open>\<open>m.group(n)\<close> raises \<open>IndexError\<close> for a group the match does not have.\<close>

definition match_group :: "string list \<Rightarrow> nat \<Rightarrow> py_error + string" where
  "match_group m n = (if n < length m then Inr (m ! n) else Inl (IndexError ''no such group''))"

record parsed_email =
  pe_headers :: "(string \<times> string) list"
  pe_subject :: string
  pe_from :: string
  pe_to :: string
  pe_date :: string
  pe_body :: pyval

definition parsed_email_dict :: "parsed_email \<Rightarrow> pyval" where
  "parsed_email_dict p =
     PDict [(''headers'', PDict (map (\<lambda>kv. (fst kv, PStr (snd kv))) (pe_headers p))),
            (''subject'', PStr (pe_subject p)),
            (''from'', PStr (pe_from p)),
            (''to'', PStr (pe_to p)),
            (''date'', PStr (pe_date p)),
            (''body'', pe_body p)]"

text \<open>The loop of \<open>_parse_plain_text_email\<close> over \<open>enumerate(lines)\<close>: the headers
  found so far and \<open>body_start\<close>; it stops at the first blank line.\<close>

fun scan_headers ::
  "nat \<Rightarrow> string list \<Rightarrow> (string \<times> string) list \<Rightarrow> nat \<Rightarrow> (string \<times> string) list \<times> nat" where
  "scan_headers i [] headers body_start = (headers, body_start)"
| "scan_headers i (line # rest) headers body_start =
     (if CHR '':'' \<in> set line then
        (let key = py_strip (takeWhile (\<lambda>c. c \<noteq> CHR '':'') line);
             val = py_strip (drop 1 (dropWhile (\<lambda>c. c \<noteq> CHR '':'') line))
         in if py_lower key \<in> set [''from'', ''to'', ''subject'', ''date'', ''cc'', ''bcc'']
            then scan_headers (Suc i) rest (dict_set headers key val) (Suc i)
            else scan_headers (Suc i) rest headers body_start)
      else if py_strip line = [] then (headers, Suc i)
      else scan_headers (Suc i) rest headers body_start)"

definition header_or :: "(string \<times> string) list \<Rightarrow> string \<Rightarrow> string \<Rightarrow> string" where
  "header_or headers k1 k2 =
     (case dict_get headers k1 of
        Some v \<Rightarrow> v
      | None \<Rightarrow> (case dict_get headers k2 of Some v \<Rightarrow> v | None \<Rightarrow> []))"

definition parse_plain_text_email :: "string \<Rightarrow> parsed_email" where
  "parse_plain_text_email email_body =
     (let lines = split_char (CHR 0x0A) (py_strip email_body);
          (headers, body_start) = scan_headers 0 lines [] 0;
          body = py_strip (join [CHR 0x0A] (drop body_start lines))
      in \<lparr> pe_headers = headers,
           pe_subject = header_or headers ''Subject'' ''subject'',
           pe_from = header_or headers ''From'' ''from'',
           pe_to = header_or headers ''To'' ''to'',
           pe_date = header_or headers ''Date'' ''date'',
           pe_body = PStr body \<rparr>)"

text \<open>\<open>msg.get(name, '')\<close> compares header names without regard to case and takes
  the first; \<open>dict(msg.items())\<close> keeps the last value of a repeated name.\<close>

definition msg_get :: "(string \<times> string) list \<Rightarrow> string \<Rightarrow> string" where
  "msg_get items name =
     (case filter (\<lambda>kv. py_lower (fst kv) = py_lower name) items of
        [] \<Rightarrow> []
      | kv # _ \<Rightarrow> snd kv)"

definition parse_email_structure :: "env \<Rightarrow> string \<Rightarrow> parsed_email" where
  "parse_email_structure e email_body =
     (case parsestr e email_body of
        Some (items, payload) \<Rightarrow>
          \<lparr> pe_headers = foldl (\<lambda>h kv. dict_set h (fst kv) (snd kv)) [] items,
            pe_subject = msg_get items ''Subject'',
            pe_from = msg_get items ''From'',
            pe_to = msg_get items ''To'',
            pe_date = msg_get items ''Date'',
            pe_body = payload \<rparr>
      | None \<Rightarrow> parse_plain_text_email email_body)"

fun first_signature :: "env \<Rightarrow> string \<Rightarrow> nat list \<Rightarrow> py_error + string" where
  "first_signature e content [] = Inr ''Unknown Sender''"
| "first_signature e content (i # rest) =
     (case re_search e (Signature i) content of
        Some m \<Rightarrow> (case match_group m 1 of Inl err \<Rightarrow> Inl err | Inr g \<Rightarrow> Inr (py_strip g))
      | None \<Rightarrow> first_signature e content rest)"

definition extract_name_from_content :: "env \<Rightarrow> string \<Rightarrow> py_error + string" where
  "extract_name_from_content e content = first_signature e content [0, 1, 2, 3]"

definition extract_sender_info ::
  "env \<Rightarrow> string \<Rightarrow> parsed_email \<Rightarrow> py_error + (string \<times> pyval) list" where
  "extract_sender_info e email_body parsed =
     (let from_field = pe_from parsed;
          email_address =
            (case re_search e SenderAddress from_field of
               Some m \<Rightarrow> match_group m 0
             | None \<Rightarrow> Inr [])
      in case email_address of
           Inl err \<Rightarrow> Inl err
         | Inr email_address \<Rightarrow>
             (let name =
                    (case re_search e SenderName from_field of
                       Some m \<Rightarrow>
                         (case match_group m 1 of
                            Inl err \<Rightarrow> Inl err
                          | Inr g \<Rightarrow> Inr (py_strip_char dquote (py_strip g)))
                     | None \<Rightarrow>
                         if email_address \<noteq> [] then
                           Inr (py_title
                                  (py_replace_char CHR ''_'' CHR '' ''
                                     (py_replace_char CHR ''.'' CHR '' ''
                                        (hd (split_char CHR ''@'' email_address)))))
                         else extract_name_from_content e email_body)
              in case name of
                   Inl err \<Rightarrow> Inl err
                 | Inr name \<Rightarrow>
                     (let company =
                            (if email_address \<noteq> [] then
                               (case split_char CHR ''@'' email_address of
                                  _ # domain # _ \<Rightarrow>
                                    Inr (py_title (hd (split_char CHR ''.'' domain)))
                                | _ \<Rightarrow> Inl (IndexError ''list index out of range''))
                             else Inr [])
                      in case company of
                           Inl err \<Rightarrow> Inl err
                         | Inr company \<Rightarrow>
                             Inr [(''name'', PStr name),
                                  (''email'', PStr email_address),
                                  (''company'', PStr company),
                                  (''full_from_field'', PStr from_field)])))"

definition indent :: string where
  "indent = replicate 8 CHR '' ''"

text \<open>A prompt is a triple quoted string of the source: a line break before every
  line, every line indented by eight blanks, and the indentation of the closing
  quotes at the end.\<close>

definition prompt_lines :: "string list \<Rightarrow> string" where
  "prompt_lines ls = concat (map (\<lambda>l. CHR 0x0A # indent @ l) ls) @ CHR 0x0A # indent"

definition subject_or :: "string option \<Rightarrow> string \<Rightarrow> string" where
  "subject_or subject dflt =
     (case subject of None \<Rightarrow> dflt | Some s \<Rightarrow> if s = [] then dflt else s)"

definition email_analysis_prompt :: "string \<Rightarrow> string option \<Rightarrow> string" where
  "email_analysis_prompt email_body subject =
     prompt_lines
       [''Analyze this email and provide:'',
        ''1. Intent/Purpose (RFQ, Support Request, Complaint, General Inquiry, etc.)'',
        ''2. Urgency Level (Low, Medium, High, Critical)'',
        ''3. Key Topics/Tags (up to 5 relevant keywords)'',
        ''4. Required Action (if any)'',
        ''5. Sentiment (Positive, Neutral, Negative)'',
        [],
        ''Subject: '' @ subject_or subject ''No subject'',
        [],
        ''Email Content:'',
        take 1500 email_body @ ''...'',
        [],
        ''Please respond in JSON format:'',
        ''{'',
        ''    '' @ json_string ''intent'' @ '': '' @ json_string ''...'' @ '','',
        ''    '' @ json_string ''urgency'' @ '': '' @ json_string ''...'' @ '','',
        ''    '' @ json_string ''topics'' @ '': [...],'',
        ''    '' @ json_string ''required_action'' @ '': '' @ json_string ''...'' @ '','',
        ''    '' @ json_string ''sentiment'' @ '': '' @ json_string ''...'' @ '','',
        ''    '' @ json_string ''confidence'' @ '': '' @ json_string ''...'',
        ''}'']"

definition default_analysis :: pyval where
  "default_analysis =
     PDict [(''intent'', PStr ''General Inquiry''),
            (''urgency'', PStr ''Medium''),
            (''topics'', PList [PStr ''general'']),
            (''required_action'', PStr ''Review and respond''),
            (''sentiment'', PStr ''Neutral''),
            (''confidence'', PStr ''Low'')]"

text \<open>\<open>_analyze_email_content\<close>: the response is given to \<open>eval\<close> and whatever it
  evaluates to is returned; the default is returned when the call or \<open>eval\<close> raises.\<close>

definition analyze_email_content :: "env \<Rightarrow> string \<Rightarrow> string option \<Rightarrow> pyval" where
  "analyze_email_content e email_body subject =
     (case llm_generate e (email_analysis_prompt email_body subject) of
        None \<Rightarrow> default_analysis
      | Some response \<Rightarrow>
          (case py_eval e response of
             None \<Rightarrow> default_analysis
           | Some analysis \<Rightarrow> analysis))"

text \<open>\<open>analysis.get(key, default)\<close>: only a dictionary has \<open>get\<close>.\<close>

definition analysis_get :: "pyval \<Rightarrow> string \<Rightarrow> pyval \<Rightarrow> py_error + pyval" where
  "analysis_get analysis key dflt =
     (case analysis of
        PDict d \<Rightarrow> Inr (case dict_get d key of Some v \<Rightarrow> v | None \<Rightarrow> dflt)
      | _ \<Rightarrow> Inl (AttributeError ''get''))"

definition sender_field :: "(string \<times> pyval) list \<Rightarrow> string \<Rightarrow> py_error + pyval" where
  "sender_field sender_info key =
     (case dict_get sender_info key of Some v \<Rightarrow> Inr v | None \<Rightarrow> Inl (KeyError key))"

definition create_crm_record ::
  "env \<Rightarrow> (string \<times> pyval) list \<Rightarrow> pyval \<Rightarrow> string option \<Rightarrow> string \<Rightarrow> py_error + pyval" where
  "create_crm_record e sender_info analysis subject email_body =
     (case (sender_field sender_info ''name'', sender_field sender_info ''email'',
            sender_field sender_info ''company'') of
        (Inr name, Inr email, Inr company) \<Rightarrow>
          (case (analysis_get analysis ''intent'' (PStr ''General''),
                 analysis_get analysis ''urgency'' (PStr ''Medium''),
                 analysis_get analysis ''sentiment'' (PStr ''Neutral''),
                 analysis_get analysis ''topics'' (PList []),
                 analysis_get analysis ''required_action'' (PStr ''Review'')) of
             (Inr intent, Inr urgency, Inr sentiment, Inr topics, Inr required_action) \<Rightarrow>
               Inr (PDict
                 [(''contact'',
                     PDict [(''name'', name), (''email'', email), (''company'', company)]),
                  (''interaction'',
                     PDict [(''type'', PStr ''email''),
                            (''subject'',
                               PStr (subject_or subject ''No Subject'')),
                            (''intent'', intent),
                            (''urgency'', urgency),
                            (''sentiment'', sentiment),
                            (''topics'', topics),
                            (''required_action'', required_action),
                            (''content_preview'',
                               PStr (if 200 < length email_body
                                     then take 200 email_body @ ''...'' else email_body)),
                            (''timestamp'', PStr (clock e)),
                            (''status'', PStr ''new'')]),
                  (''metadata'',
                     PDict [(''content_length'', PInt (int (length email_body))),
                            (''has_attachments'',
                               PBool (contains (py_lower email_body) ''attachment'')),
                            (''language'', PStr ''en''),
                            (''source'', PStr ''email_parser_agent'')])])
           | _ \<Rightarrow> Inl (AttributeError ''get''))
      | (Inl err, _, _) \<Rightarrow> Inl err
      | (_, Inl err, _) \<Rightarrow> Inl err
      | (_, _, Inl err) \<Rightarrow> Inl err)"

text \<open>\<open>_generate_conversation_id\<close>: \<open>sender_info.get('email', 'unknown')\<close> gives the
  default only when the key is absent; \<open>subject or 'no_subject'\<close> gives it for
  \<open>None\<close> and for the empty string.\<close>

definition conversation_base_string :: "(string \<times> pyval) list \<Rightarrow> string option \<Rightarrow> string" where
  "conversation_base_string sender_info subject =
     py_str (case dict_get sender_info ''email'' of Some v \<Rightarrow> v | None \<Rightarrow> PStr ''unknown'')
     @ ''_''
     @ subject_or subject ''no_subject''"

definition generate_conversation_id ::
  "env \<Rightarrow> (string \<times> pyval) list \<Rightarrow> string option \<Rightarrow> string" where
  "generate_conversation_id e sender_info subject =
     (let base_string = conversation_base_string sender_info subject;
          conversation_id = take 12 (md5_hexdigest e base_string)
      in ''conv_'' @ conversation_id)"

definition email_process_text ::
  "env \<Rightarrow> redis \<Rightarrow> string \<Rightarrow> string option \<Rightarrow> string \<Rightarrow> (py_error + pyval) \<times> redis" where
  "email_process_text e rc email_body subject session_id =
     (let parsed = parse_email_structure e email_body
      in case extract_sender_info e email_body parsed of
           Inl err \<Rightarrow> (Inl err, rc)
         | Inr sender_info \<Rightarrow>
             (let analysis = analyze_email_content e email_body subject
              in case create_crm_record e sender_info analysis subject email_body of
                   Inl err \<Rightarrow> (Inl err, rc)
                 | Inr crm_record \<Rightarrow>
                     (let conversation_id = generate_conversation_id e sender_info subject;
                          result =
                            [(''agent'', PStr ''email_parser_agent''),
                             (''conversation_id'', PStr conversation_id),
                             (''sender_info'', PDict sender_info),
                             (''analysis'', analysis),
                             (''crm_record'', crm_record),
                             (''parsed_email'', parsed_email_dict parsed),
                             (''processed_at'', PStr (clock e))]
                      in case update_session rc (clock e) session_id result of
                           (Inl err, _, rc') \<Rightarrow> (Inl err, rc')
                         | (Inr _, result', rc') \<Rightarrow> (Inr (PDict result'), rc'))))"

text \<open>\<open>process\<close> of the e-mail agent. A body that is not a string makes the standard
  parser raise, and the plain text fallback then raises on \<open>strip\<close> or \<open>split\<close>.\<close>

definition email_process ::
  "env \<Rightarrow> redis \<Rightarrow> pyval \<Rightarrow> string option \<Rightarrow> string \<Rightarrow> (py_error + pyval) \<times> redis" where
  "email_process e rc email_body subject session_id =
     (case email_body of
        PStr s \<Rightarrow> email_process_text e rc s subject session_id
      | PBytes _ \<Rightarrow> (Inl (TypeError ''a bytes-like object is required''), rc)
      | _ \<Rightarrow> (Inl (AttributeError ''strip''), rc))"

section \<open>PDF strategy (\<open>agents/pdf_agent.py\<close>)\<close>

definition page_block :: "nat \<times> string option \<Rightarrow> string" where
  "page_block p =
     (case snd p of
        Some page_text \<Rightarrow>
          CHR 0x0A # ''--- Page '' @ show_nat (fst p) @ '' ---'' @ CHR 0x0A # page_text
      | None \<Rightarrow>
          CHR 0x0A # ''--- Page '' @ show_nat (fst p) @ '' (Error extracting text) ---''
            @ [CHR 0x0A])"

text \<open>\<open>_extract_text_from_pdf\<close>: pages are numbered from 1; the outer handler
  replaces the whole text by one message.\<close>

definition extract_text_from_pdf :: "env \<Rightarrow> pyval \<Rightarrow> string" where
  "extract_text_from_pdf e pdf_content =
     (case pdf_reader e pdf_content of
        PdfError msg \<Rightarrow> ''Error extracting PDF text: '' @ msg
      | PdfPages pages \<Rightarrow>
          py_strip (concat (map page_block (zip [1 ..< Suc (length pages)] pages))))"

record document_analysis =
  da_total_lines :: nat
  da_total_words :: nat
  da_total_characters :: nat
  da_avg_words_per_line :: string
  da_has_tables :: bool
  da_has_headers :: bool
  da_has_addresses :: bool
  da_has_dates :: bool
  da_has_amounts :: bool
  da_has_phone_numbers :: bool
  da_has_emails :: bool
  da_document_sections :: "string list"

definition document_analysis_dict :: "document_analysis \<Rightarrow> pyval" where
  "document_analysis_dict a =
     PDict [(''statistics'',
               PDict [(''total_lines'', PInt (int (da_total_lines a))),
                      (''total_words'', PInt (int (da_total_words a))),
                      (''total_characters'', PInt (int (da_total_characters a))),
                      (''avg_words_per_line'', PFloat (da_avg_words_per_line a))]),
            (''structure_elements'',
               PDict [(''has_tables'', PBool (da_has_tables a)),
                      (''has_headers'', PBool (da_has_headers a)),
                      (''has_addresses'', PBool (da_has_addresses a)),
                      (''has_dates'', PBool (da_has_dates a)),
                      (''has_amounts'', PBool (da_has_amounts a)),
                      (''has_phone_numbers'', PBool (da_has_phone_numbers a)),
                      (''has_emails'', PBool (da_has_emails a))]),
            (''document_sections'', PList (map PStr (da_document_sections a)))]"

text \<open>A detector returns \<open>True\<close> at the first of its patterns that is found.\<close>

definition detect_any :: "env \<Rightarrow> (nat \<Rightarrow> pattern) \<Rightarrow> nat \<Rightarrow> string \<Rightarrow> bool" where
  "detect_any e pat n text = list_ex (\<lambda>i. re_search e (pat i) text \<noteq> None) [0 ..< n]"

definition detect_headers :: "string list \<Rightarrow> bool" where
  "detect_headers lines =
     list_ex (\<lambda>line. py_strip line \<noteq> [] \<and> (py_isupper line \<or> length (py_words line) \<le> 5))
       (take 10 lines)"

fun sections_from :: "string list \<Rightarrow> string list \<Rightarrow> string list \<Rightarrow> string list" where
  "sections_from sections current_section [] =
     (if current_section \<noteq> [] then sections @ [join [CHR 0x0A] current_section]
      else sections)"
| "sections_from sections current_section (line # rest) =
     (let line = py_strip line
      in if line = [] then
           (if current_section \<noteq> []
            then sections_from (sections @ [join [CHR 0x0A] current_section]) [] rest
            else sections_from sections current_section rest)
         else sections_from sections (current_section @ [line]) rest)"

definition identify_sections :: "string list \<Rightarrow> string list" where
  "identify_sections lines = take 5 (sections_from [] [] lines)"

definition analyze_document :: "env \<Rightarrow> string \<Rightarrow> document_analysis" where
  "analyze_document e text =
     (let lines = split_char (CHR 0x0A) text;
          words = py_words text
      in \<lparr> da_total_lines = length lines,
           da_total_words = length words,
           da_total_characters = length text,
           da_avg_words_per_line = float_div e (length words) (length lines),
           da_has_tables = detect_any e TableRow 3 text,
           da_has_headers = detect_headers lines,
           da_has_addresses = detect_any e Address 3 text,
           da_has_dates = detect_any e Date 4 text,
           da_has_amounts = detect_any e Amount 3 text,
           da_has_phone_numbers = detect_any e Phone 3 text,
           da_has_emails = (re_search e EmailAddress text \<noteq> None),
           da_document_sections = identify_sections lines \<rparr>)"

definition show_bool :: "bool \<Rightarrow> string" where
  "show_bool b = (if b then ''True'' else ''False'')"

definition key_information_prompt :: "string \<Rightarrow> document_analysis \<Rightarrow> string" where
  "key_information_prompt text analysis =
     prompt_lines
       [''Extract key information from this document. Based on the document analysis, focus on:'',
        ''- Document title/header'',
        ''- Key dates'',
        ''- Names and contact information'',
        ''- Monetary amounts'',
        ''- Important numbers (invoice numbers, account numbers, etc.)'',
        ''- Addresses'',
        ''- Main content summary'',
        [],
        ''Document Analysis Context:'',
        ''- Has tables: '' @ show_bool (da_has_tables analysis),
        ''- Has amounts: '' @ show_bool (da_has_amounts analysis),
        ''- Has dates: '' @ show_bool (da_has_dates analysis),
        ''- Has addresses: '' @ show_bool (da_has_addresses analysis),
        [],
        ''Document Text (first 2000 chars):'',
        take 2000 text @ ''...'',
        [],
        ''Return extracted information in JSON format with clear field names.'']"

definition put_if_found ::
  "(string \<times> pyval) list \<Rightarrow> string \<Rightarrow> string list \<Rightarrow> (string \<times> pyval) list" where
  "put_if_found extracted key found =
     (if found \<noteq> [] then dict_set extracted key (PList (map PStr found)) else extracted)"

definition basic_extraction :: "env \<Rightarrow> string \<Rightarrow> pyval" where
  "basic_extraction e text =
     (let extracted = [];
          extracted = put_if_found extracted ''emails'' (re_findall e EmailAddress text);
          extracted = put_if_found extracted ''phone_numbers'' (re_findall e (Phone 0) text);
          extracted = put_if_found extracted ''amounts'' (re_findall e (Amount 0) text);
          extracted = put_if_found extracted ''dates'' (re_findall e (Date 0) text)
      in PDict extracted)"

definition extract_key_information :: "env \<Rightarrow> string \<Rightarrow> document_analysis \<Rightarrow> pyval" where
  "extract_key_information e text analysis =
     (case llm_generate e (key_information_prompt text analysis) of
        None \<Rightarrow> basic_extraction e text
      | Some response \<Rightarrow>
          (case json_loads response of
             None \<Rightarrow> basic_extraction e text
           | Some extracted \<Rightarrow> extracted))"

definition document_type_prompt :: "string \<Rightarrow> string" where
  "document_type_prompt text =
     prompt_lines
       [''Classify this document type based on its content. '',
        [],
        ''Common document types:'',
        ''- Invoice'',
        ''- Receipt'',
        ''- Contract'',
        ''- Report'',
        ''- Letter'',
        ''- Form'',
        ''- Certificate'',
        ''- Manual'',
        ''- Brochure'',
        [],
        ''Document content (first 1000 chars):'',
        take 1000 text @ ''...'',
        [],
        ''Respond with:'',
        ''{'',
        ''    '' @ json_string ''document_type'' @ '': '' @ json_string ''...'' @ '','',
        ''    '' @ json_string ''confidence'' @ '': '' @ json_string ''high/medium/low'' @ '','',
        ''    '' @ json_string ''key_indicators'' @ '': ['' @ json_string ''...'' @ '', ''
               @ json_string ''...'' @ ''],'',
        ''    '' @ json_string ''business_category'' @ '': '' @ json_string ''...'',
        ''}'']"

definition default_document_type :: pyval where
  "default_document_type =
     PDict [(''document_type'', PStr ''Unknown''),
            (''confidence'', PStr ''low''),
            (''key_indicators'', PList []),
            (''business_category'', PStr ''General'')]"

definition classify_document_type :: "env \<Rightarrow> string \<Rightarrow> pyval" where
  "classify_document_type e text =
     (case llm_generate e (document_type_prompt text) of
        None \<Rightarrow> default_document_type
      | Some response \<Rightarrow>
          (case json_loads response of
             None \<Rightarrow> default_document_type
           | Some classification \<Rightarrow> classification))"

definition pdf_result :: "env \<Rightarrow> pyval \<Rightarrow> (string \<times> pyval) list" where
  "pdf_result e pdf_content =
     (let extracted_text = extract_text_from_pdf e pdf_content;
          document_analysis = analyze_document e extracted_text;
          extracted_data = extract_key_information e extracted_text document_analysis;
          document_classification = classify_document_type e extracted_text
      in [(''agent'', PStr ''pdf_agent''),
          (''document_classification'', document_classification),
          (''extracted_text'',
             PStr (if 1000 < length extracted_text
                   then take 1000 extracted_text @ ''...'' else extracted_text)),
          (''document_analysis'', document_analysis_dict document_analysis),
          (''extracted_data'', extracted_data),
          (''processed_at'', PStr (clock e))])"

text \<open>\<open>process\<close> of the PDF agent: the result is built and given to
  \<open>update_session\<close>, then returned.\<close>

definition pdf_process :: "env \<Rightarrow> redis \<Rightarrow> pyval \<Rightarrow> string \<Rightarrow> (py_error + pyval) \<times> redis" where
  "pdf_process e rc pdf_content session_id =
     (case update_session rc (clock e) session_id (pdf_result e pdf_content) of
        (Inl err, _, rc') \<Rightarrow> (Inl err, rc')
      | (Inr _, result', rc') \<Rightarrow> (Inr (PDict result'), rc'))"

section \<open>Router (\<open>main.py\<close>)\<close>

definition route_to_agent ::
  "env \<Rightarrow> redis \<Rightarrow> classification \<Rightarrow> pyval \<Rightarrow> string \<Rightarrow> (py_error + pyval) \<times> redis" where
  "route_to_agent e rc classification content session_id =
     (let format_type = py_lower (cls_format classification)
      in if format_type = ''pdf'' then pdf_process e rc content session_id
         else if format_type = ''json'' then
           (case content of
              PStr s \<Rightarrow>
                (case json_loads s of
                   None \<Rightarrow> (Inl JSONDecodeError, rc)
                 | Some data \<Rightarrow> json_process e rc data session_id)
            | _ \<Rightarrow> json_process e rc content session_id)
         else if format_type = ''email'' then email_process e rc content None session_id
         else (Inl (ValueError (''Unsupported format: '' @ format_type)), rc))"

text \<open>A strategy invocation on a session, and a sequence of them: the store after
  each, whether the strategy returned or raised.\<close>

datatype invocation =
    InvokePdf env pyval
  | InvokeJson env pyval
  | InvokeEmail env pyval "string option"

fun invoke :: "string \<Rightarrow> redis \<Rightarrow> invocation \<Rightarrow> redis" where
  "invoke session_id rc (InvokePdf e content) = snd (pdf_process e rc content session_id)"
| "invoke session_id rc (InvokeJson e data) = snd (json_process e rc data session_id)"
| "invoke session_id rc (InvokeEmail e body subject) =
     snd (email_process e rc body subject session_id)"

definition invoke_all :: "string \<Rightarrow> redis \<Rightarrow> invocation list \<Rightarrow> redis" where
  "invoke_all session_id rc invocations = foldl (invoke session_id) rc invocations"

section \<open>Verified properties\<close>

subsection \<open>Confidence of a classification\<close>

lemma float_0_7_value: "float_0_7 = 3152519739159347 / 4503599627370496"
  by code_simp

lemma float_0_7_0_2: "float_add float_0_7 float_0_2 = 2026619832316723 / 2251799813685248"
  by code_simp

lemma float_0_7_0_1: "float_add float_0_7 float_0_1 = 7205759403792793 / 9007199254740992"
  by code_simp

lemma float_0_7_0_2_0_1:
  "float_add (2026619832316723 / 2251799813685248) float_0_1
     = 9007199254740991 / 9007199254740992"
  by code_simp

lemma calculate_confidence_cases:
  "calculate_confidence content format_type intent =
     (if format_type = ''pdf'' \<or> format_type = ''json'' \<or> format_type = ''email''
      then (if intent \<noteq> ''general_processing''
            then 9007199254740991 / 9007199254740992
            else 2026619832316723 / 2251799813685248)
      else (if intent \<noteq> ''general_processing''
            then 7205759403792793 / 9007199254740992
            else 3152519739159347 / 4503599627370496))"
  by (simp add: calculate_confidence_def Let_def float_0_7_0_2_0_1 float_0_7_0_2 float_0_7_0_1)
    (simp add: float_0_7_value)

lemma calculate_confidence_below_one: "calculate_confidence content format_type intent < 1"
  by (simp add: calculate_confidence_cases)

lemma calculate_confidence_lower: "float_0_7 \<le> calculate_confidence content format_type intent"
  by (simp add: calculate_confidence_cases float_0_7_value)

lemma classify_confidence:
  "cls_confidence (classify c ft fn md) =
     calculate_confidence c (cls_format (classify c ft fn md)) (cls_intent (classify c ft fn md))"
  by (simp add: classify_def Let_def)

text \<open>
  Claim C1. The confidence of a classification is claimed to lie in [0.7, 1.0] and to
  equal 1.0 exactly when the format is pdf, json or email and the intent is not
  general_processing. The source adds the floats 0.7, 0.2 and 0.1 in this order; in
  binary64 arithmetic the sum is 0.9999999999999999 = (2^53 - 1) / 2^53, so the clamp
  \<open>min(_, 1.0)\<close> never takes effect. For the content \<open>invoice\<close> with the file type
  \<open>application/pdf\<close> the format is pdf, the intent is invoice_processing and the
  confidence is below 1.0; for every input the confidence is at least the float 0.7
  and strictly below 1.0.
\<close>

theorem classify_confidence_never_one:
  "cls_format (classify (PStr ''invoice'') (Some ''application/pdf'') None None) = ''pdf''
   \<and> cls_intent (classify (PStr ''invoice'') (Some ''application/pdf'') None None)
       = ''invoice_processing''
   \<and> cls_confidence (classify (PStr ''invoice'') (Some ''application/pdf'') None None)
       = 9007199254740991 / 9007199254740992
   \<and> cls_confidence (classify content file_type filename metadata) < 1
   \<and> float_0_7 \<le> cls_confidence (classify content file_type filename metadata)"
proof -
  have f: "cls_format (classify (PStr ''invoice'') (Some ''application/pdf'') None None) = ''pdf''"
    by code_simp
  have i: "cls_intent (classify (PStr ''invoice'') (Some ''application/pdf'') None None)
             = ''invoice_processing''"
    by code_simp
  have c: "cls_confidence (classify (PStr ''invoice'') (Some ''application/pdf'') None None)
             = 9007199254740991 / 9007199254740992"
    unfolding classify_confidence f i by (simp add: calculate_confidence_cases)
  show ?thesis
    using f i c
    by (simp add: classify_confidence calculate_confidence_below_one calculate_confidence_lower)
qed

subsection \<open>Format and intent of a classification\<close>

lemma split_char_nonempty: "split_char sep s \<noteq> []"
  by (induction s) (auto split: list.splits)

lemma split_char_no_sep: "sep \<notin> set s \<Longrightarrow> split_char sep s = [s]"
  by (induction s) auto

lemma split_char_append_sep:
  "sep \<notin> set ys \<Longrightarrow> \<exists>pre. split_char sep (xs @ sep # ys) = pre @ [ys] \<and> pre \<noteq> []"
proof (induction xs)
  case Nil
  then show ?case by (simp add: split_char_no_sep)
next
  case (Cons x xs)
  then obtain pre where pre: "split_char sep (xs @ sep # ys) = pre @ [ys]" "pre \<noteq> []"
    by blast
  then obtain w ws where w: "pre = w # ws" by (cases pre) auto
  show ?case
  proof (cases "x = sep")
    case True
    with pre show ?thesis by (intro exI[of _ "[] # pre"]) simp
  next
    case False
    with pre w show ?thesis by (intro exI[of _ "(x # w) # ws"]) simp
  qed
qed

lemma last_split_char_append:
  "sep \<notin> set ys \<Longrightarrow> last (split_char sep (xs @ sep # ys)) = ys"
  using split_char_append_sep[of sep ys xs] by auto

lemma py_lower_append: "py_lower (xs @ ys) = py_lower xs @ py_lower ys"
  by (simp add: py_lower_def)

lemma extension_pdf:
  assumes "py_lower ext = ''.pdf''"
  shows "extension_format (Some (stem @ ext)) = Some ''pdf''"
proof -
  from assms have ne: "ext \<noteq> []" by (auto simp: py_lower_def)
  have "py_lower (stem @ ext) = py_lower stem @ CHR ''.'' # ''pdf''"
    using assms by (simp add: py_lower_append)
  then have "last (split_char CHR ''.'' (py_lower (stem @ ext))) = ''pdf''"
    by (simp add: last_split_char_append)
  then show ?thesis
    using ne by (simp add: extension_format_def Let_def)
qed

lemma classify_format:
  "cls_format (classify c ft fn md) = determine_format c ft fn"
  by (simp add: classify_def Let_def)


text \<open>
  Claim C5, as amended. The format is pdf for every content and every file name that
  ends in \<open>.pdf\<close> in any letter case, provided the file type hint does not decide:
  no hint is given, or the hint is not a key of the table. A hint that is in the
  table is looked at first and wins over the file name.
\<close>

theorem classify_pdf_extension:
  assumes "file_type_format file_type = None"
    and "py_lower ext = ''.pdf''"
  shows "cls_format (classify content file_type (Some (stem @ ext)) metadata) = ''pdf''"
  using assms
  by (simp add: classify_format determine_format_def extension_pdf)

theorem classify_pdf_extension_witness:
  "file_type_format (Some ''application/octet-stream'') = None
   \<and> py_lower ''.PdF'' = ''.pdf''
   \<and> cls_format (classify (PStr ''{}'') (Some ''application/octet-stream'')
         (Some (''Report'' @ ''.PdF'')) None) = ''pdf''"
proof -
  have h1: "file_type_format (Some ''application/octet-stream'') = None"
    by code_simp
  have h2: "py_lower ''.PdF'' = ''.pdf''"
    by code_simp
  from classify_pdf_extension[OF h1 h2, of "PStr ''{}''" "''Report''" None] h1 h2
  show ?thesis by simp
qed

text \<open>Claim C5 as stated fails: with the hint \<open>text/plain\<close> the file \<open>report.pdf\<close>
  is classified as text.\<close>

theorem classify_pdf_extension_counterexample:
  "py_lower ''.pdf'' = ''.pdf''
   \<and> cls_format (classify (PStr ''hello'') (Some ''text/plain'') (Some (''report'' @ ''.pdf'')) None)
       = ''text''
   \<and> cls_format (classify (PStr ''hello'') (Some ''text/plain'') (Some (''report'' @ ''.pdf'')) None)
       \<noteq> ''pdf''"
  by code_simp











subsection \<open>Session memory: creating and reading a session\<close>

lemma map_of_dict_set:
  "map_of (dict_set h k v) k' = (if k' = k then Some v else map_of h k')"
  by (induction h k v rule: dict_set.induct) auto

lemma dict_get_dict_set:
  "dict_get (dict_set h k v) k' = (if k' = k then Some v else dict_get h k')"
  by (simp add: dict_get_def map_of_dict_set)

lemma map_of_foldl_dict_set:
  "map_of (foldl (\<lambda>h kv. dict_set h (fst kv) (snd kv)) h m) k
     = (map_of h ++ map_of (rev m)) k"
proof (induction m arbitrary: h)
  case Nil
  then show ?case by simp
next
  case (Cons kv m)
  show ?case
    by (auto simp: Cons.IH map_of_dict_set map_add_def split: option.splits)
qed

lemma dict_get_map_values:
  "dict_get (map (\<lambda>kv. (fst kv, f (snd kv))) h) k = map_option f (dict_get h k)"
  by (induction h) (auto simp: dict_get_def)

lemma parse_atom_not_str: "parse_atom a = Some v \<Longrightarrow> v \<noteq> PStr t"
  by (auto simp: parse_atom_def parse_number_def Let_def split: if_splits prod.splits)

lemma cons_tok_Some: "cons_tok t r = Some ts \<longleftrightarrow> (\<exists>ts'. r = Some ts' \<and> ts = t # ts')"
  by (cases r) (auto simp: cons_tok_def)

lemma tokenize_str_length:
  "tokenize s = Some ts \<Longrightarrow> TAtom (PStr t) \<in> set ts \<Longrightarrow> length t < length s"
proof (induction "length s" arbitrary: s ts rule: less_induct)
  case less
  show ?case
  proof (cases s)
    case Nil
    with less.prems show ?thesis by (simp add: tokenize.simps)
  next
    case (Cons c cs)
    have IH: "\<And>s' ts'. length s' \<le> length cs \<Longrightarrow> tokenize s' = Some ts'
                \<Longrightarrow> TAtom (PStr t) \<in> set ts' \<Longrightarrow> length t < length s'"
      using less.hyps Cons by simp
    have A: "\<And>ts'. tokenize cs = Some ts' \<Longrightarrow> TAtom (PStr t) \<in> set ts'
                \<Longrightarrow> length t < Suc (length cs)"
      using IH[of cs] by force
    have B: "\<And>a b ts'. scan_string cs = Some (a, b) \<Longrightarrow> tokenize b = Some ts'
                \<Longrightarrow> TAtom (PStr t) \<in> set ts' \<Longrightarrow> length t < Suc (length cs)"
    proof -
      fix a b ts'
      assume sc: "scan_string cs = Some (a, b)" and tk: "tokenize b = Some ts'"
        and m: "TAtom (PStr t) \<in> set ts'"
      from scan_string_length[OF sc] have "length b \<le> length cs" by simp
      from IH[OF this tk m] scan_string_length[OF sc] show "length t < Suc (length cs)"
        by simp
    qed
    have C: "\<And>ts'. tokenize (dropWhile is_atom_char cs) = Some ts'
                \<Longrightarrow> TAtom (PStr t) \<in> set ts' \<Longrightarrow> length t < Suc (length cs)"
    proof -
      fix ts'
      assume tk: "tokenize (dropWhile is_atom_char cs) = Some ts'"
        and m: "TAtom (PStr t) \<in> set ts'"
      have dw: "length (dropWhile is_atom_char cs) \<le> length cs"
        by (rule length_dropWhile_le)
      from IH[OF dw tk m] dw show "length t < Suc (length cs)" by simp
    qed
    have D: "\<And>b. scan_string cs = Some (t, b) \<Longrightarrow> length t < Suc (length cs)"
      using scan_string_length by fastforce
    from less.prems show ?thesis
      unfolding Cons
      apply (subst (asm) tokenize.simps)
      apply (auto simp: cons_tok_Some split: if_splits option.splits
          dest: parse_atom_not_str A C)
       apply (blast intro: B D)+
      done
  qed
qed

lemma complete_Finished: "complete v st = Some (st', Finished w) \<Longrightarrow> w = v"
  by (induction v st rule: complete.induct) auto

lemma pstep_Finished:
  "pstep cfg tok = Some (st', Finished v) \<Longrightarrow> tok = TAtom v \<or> is_list v \<or> is_dict v"
proof (cases cfg)
  case (Pair st ps)
  assume a: "pstep cfg tok = Some (st', Finished v)"
  show ?thesis
  proof (cases ps)
    case WantValue
    with a Pair show ?thesis
      by (cases tok) (auto dest: complete_Finished)
  next
    case WantValueOrEnd
    with a Pair show ?thesis
      by (cases tok; cases st)
        (auto simp: is_list_def dest: complete_Finished split: frame.splits)
  next
    case WantKeyOrEnd
    with a Pair show ?thesis
      by (cases tok; cases st)
        (auto simp: is_dict_def dest: complete_Finished split: frame.splits pyval.splits
          elim: key_token.elims)
  next
    case WantKey
    with a Pair show ?thesis
      by (auto elim: key_token.elims)
  next
    case WantColon
    with a Pair show ?thesis
      by (cases tok) auto
  next
    case AfterValue
    with a Pair show ?thesis
      by (cases tok; cases st)
        (auto simp: is_list_def is_dict_def dest: complete_Finished split: frame.splits)
  next
    case (Finished x)
    with a Pair show ?thesis by simp
  qed
qed

lemma prun_str:
  "prun cfg ts = Some (PStr t) \<Longrightarrow> snd cfg \<noteq> Finished (PStr t)
     \<Longrightarrow> TAtom (PStr t) \<in> set ts"
proof (induction ts arbitrary: cfg)
  case Nil
  then show ?case by (cases cfg) (auto split: list.splits pstate.splits)
next
  case (Cons tok ts)
  from Cons.prems(1) obtain cfg' where st: "pstep cfg tok = Some cfg'"
    and run: "prun cfg' ts = Some (PStr t)"
    by (auto split: option.splits)
  show ?case
  proof (cases "snd cfg' = Finished (PStr t)")
    case True
    then obtain st' where "cfg' = (st', Finished (PStr t))" by (cases cfg') auto
    with st have "tok = TAtom (PStr t) \<or> is_list (PStr t) \<or> is_dict (PStr t)"
      by (auto dest: pstep_Finished)
    then show ?thesis by (simp add: is_list_def is_dict_def)
  next
    case False
    from Cons.IH[OF run False] show ?thesis by simp
  qed
qed

lemma json_loads_str_shorter: "json_loads s = Some (PStr t) \<Longrightarrow> length t < length s"
  by (auto simp: json_loads_def split: option.splits dest!: prun_str dest: tokenize_str_length)

lemma json_loads_not_self: "json_loads s \<noteq> Some (PStr s)"
  using json_loads_str_shorter[of s s] by auto

lemma parse_field_identity: "parse_field s = PStr s \<longleftrightarrow> json_loads s = None"
  using json_loads_not_self[of s] by (auto simp: parse_field_def split: option.splits)


lemma redis_mapping_session_data:
  "redis_mapping
     [(''session_id'', PStr u), (''source'', PStr src), (''input_type'', PStr it),
      (''intent'', PStr i), (''created_at'', PStr ts), (''updated_at'', PStr ts),
      (''status'', PStr ''active''), (''processing_history'', PList []),
      (''extracted_data'', PDict []), (''metadata'', PDict [])]
   = Some [(''session_id'', u), (''source'', src), (''input_type'', it),
      (''intent'', i), (''created_at'', ts), (''updated_at'', ts),
      (''status'', ''active''), (''processing_history'', ''[]''),
      (''extracted_data'', ''{}''), (''metadata'', ''{}'')]"
  by (simp add: redis_mapping_def redis_value_def is_dict_def is_list_def py_str_def)

lemma create_session_eq:
  "create_session rc u src it i ts =
     (Inr u,
      redis_expire
        (redis_sadd
           (redis_hset rc (session_prefix @ u)
              [(''session_id'', u), (''source'', src), (''input_type'', it),
               (''intent'', i), (''created_at'', ts), (''updated_at'', ts),
               (''status'', ''active''), (''processing_history'', ''[]''),
               (''extracted_data'', ''{}''), (''metadata'', ''{}'')])
           sessions_key u)
        (session_prefix @ u) 86400)"
  unfolding create_session_def Let_def redis_mapping_session_data by simp

lemma hashes_after_create:
  "hashes (redis_expire (redis_sadd (redis_hset rc key m) sk u) key n) key
     = Some (foldl (\<lambda>h kv. dict_set h (fst kv) (snd kv)) (redis_hgetall rc key) m)"
  by (simp add: redis_expire_def redis_sadd_def redis_hset_def redis_exists_def)


lemma get_session_after_create:
  "get_session (snd (create_session rc u src it i ts)) u =
     Some (map (\<lambda>kv. (fst kv, parse_field (snd kv)))
       (foldl (\<lambda>h kv. dict_set h (fst kv) (snd kv)) (redis_hgetall rc (session_prefix @ u))
          [(''session_id'', u), (''source'', src), (''input_type'', it),
           (''intent'', i), (''created_at'', ts), (''updated_at'', ts),
           (''status'', ''active''), (''processing_history'', ''[]''),
           (''extracted_data'', ''{}''), (''metadata'', ''{}'')]))"
  by (simp add: create_session_eq get_session_def Let_def redis_exists_def hashes_after_create
        redis_hgetall_def)

lemma parse_field_active: "parse_field ''active'' = PStr ''active''"
  by code_simp

lemma parse_field_empty_list: "parse_field ''[]'' = PList []"
  by code_simp

lemma parse_field_empty_dict: "parse_field ''{}'' = PDict []"
  by code_simp

lemma session_fields_after_create:
  assumes "get_session (snd (create_session rc u src it i ts)) u = Some session"
  shows "dict_get session ''status'' = Some (PStr ''active'')"
    and "dict_get session ''processing_history'' = Some (PList [])"
    and "dict_get session ''extracted_data'' = Some (PDict [])"
    and "dict_get session ''source'' = Some (parse_field src)"
    and "dict_get session ''input_type'' = Some (parse_field it)"
    and "dict_get session ''intent'' = Some (parse_field i)"
  using assms
  by (auto simp: get_session_after_create dict_get_map_values dict_get_dict_set
      parse_field_active parse_field_empty_list parse_field_empty_dict)



text \<open>
  Claim C10. \<open>get_session\<close> gives every stored field to \<open>json.loads\<close> and keeps the
  parsed value when that succeeds. So after \<open>create_session\<close> the fields source,
  input_type and intent read back as the parsed value when their text parses as JSON
  (\<open>123\<close> reads back as the integer 123, \<open>true\<close> as the boolean) and as the
  original string exactly when the text does not parse.
\<close>

theorem get_session_parses_every_field:
  "\<exists>session.
      get_session (snd (create_session rc uuid source input_type intent timestamp)) uuid
        = Some session
      \<and> dict_get session ''source''
          = Some (case json_loads source of Some v \<Rightarrow> v | None \<Rightarrow> PStr source)
      \<and> dict_get session ''input_type''
          = Some (case json_loads input_type of Some v \<Rightarrow> v | None \<Rightarrow> PStr input_type)
      \<and> dict_get session ''intent''
          = Some (case json_loads intent of Some v \<Rightarrow> v | None \<Rightarrow> PStr intent)
      \<and> (dict_get session ''source'' = Some (PStr source) \<longleftrightarrow> json_loads source = None)
      \<and> (dict_get session ''input_type'' = Some (PStr input_type)
            \<longleftrightarrow> json_loads input_type = None)
      \<and> (dict_get session ''intent'' = Some (PStr intent) \<longleftrightarrow> json_loads intent = None)
      \<and> json_loads ''123'' = Some (PInt 123)
      \<and> json_loads ''true'' = Some (PBool True)"
proof -
  obtain session where
    g: "get_session (snd (create_session rc uuid source input_type intent timestamp)) uuid
          = Some session"
    by (simp add: get_session_after_create)
  have e1: "json_loads ''123'' = Some (PInt 123)" by code_simp
  have e2: "json_loads ''true'' = Some (PBool True)" by code_simp
  note f = session_fields_after_create(4-6)[OF g]
  have "parse_field source = (case json_loads source of Some v \<Rightarrow> v | None \<Rightarrow> PStr source)"
    "parse_field input_type
       = (case json_loads input_type of Some v \<Rightarrow> v | None \<Rightarrow> PStr input_type)"
    "parse_field intent = (case json_loads intent of Some v \<Rightarrow> v | None \<Rightarrow> PStr intent)"
    by (simp_all add: parse_field_def)
  with g f e1 e2 show ?thesis
    by (auto simp: parse_field_identity simp del: parse_field_def)
qed

subsection \<open>Router\<close>

text \<open>
  Claim C4. The router lowers the format of the classification. When the result is
  none of pdf, json and email it raises \<open>ValueError("Unsupported format: ...")\<close> and
  the store is the one it was given: no session is touched. Otherwise it is exactly
  the call of the matching strategy on the content, with the one adaptation that for
  json a string is first parsed by \<open>json.loads\<close> (when that raises, the router
  raises with the store unchanged and the strategy is not called).
\<close>

theorem route_to_agent_dispatch:
  "(py_lower (cls_format classification) \<noteq> ''pdf''
      \<and> py_lower (cls_format classification) \<noteq> ''json''
      \<and> py_lower (cls_format classification) \<noteq> ''email''
    \<longrightarrow> route_to_agent e rc classification content session_id
          = (Inl (ValueError (''Unsupported format: '' @ py_lower (cls_format classification))),
             rc))
   \<and> (py_lower (cls_format classification) = ''pdf''
    \<longrightarrow> route_to_agent e rc classification content session_id
          = pdf_process e rc content session_id)
   \<and> (py_lower (cls_format classification) = ''json''
    \<longrightarrow> route_to_agent e rc classification content session_id
          = (case content of
               PStr s \<Rightarrow>
                 (case json_loads s of
                    None \<Rightarrow> (Inl JSONDecodeError, rc)
                  | Some data \<Rightarrow> json_process e rc data session_id)
             | _ \<Rightarrow> json_process e rc content session_id))
   \<and> (py_lower (cls_format classification) = ''email''
    \<longrightarrow> route_to_agent e rc classification content session_id
          = email_process e rc content None session_id)"
  by (simp add: route_to_agent_def Let_def)

theorem route_to_agent_dispatch_witness:
  "py_lower ''CSV'' \<noteq> ''pdf'' \<and> py_lower ''CSV'' \<noteq> ''json'' \<and> py_lower ''CSV'' \<noteq> ''email''
   \<and> route_to_agent silent_env redis_empty
        \<lparr> cls_format = ''CSV'', cls_intent = ''general_processing'', cls_confidence = 1,
          cls_metadata = \<lparr> md_file_type = None, md_filename = None, md_content_length = 3 \<rparr> \<rparr>
        (PStr ''a,b'') ''6f1c''
       = (Inl (ValueError ''Unsupported format: csv''), redis_empty)
   \<and> py_lower ''PDF'' = ''pdf''
   \<and> route_to_agent silent_env redis_empty
        \<lparr> cls_format = ''PDF'', cls_intent = ''general_processing'', cls_confidence = 1,
          cls_metadata = \<lparr> md_file_type = None, md_filename = None, md_content_length = 3 \<rparr> \<rparr>
        (PStr ''a,b'') ''6f1c''
       = pdf_process silent_env redis_empty (PStr ''a,b'') ''6f1c''
   \<and> py_lower ''Json'' = ''json''
   \<and> route_to_agent silent_env redis_empty
        \<lparr> cls_format = ''Json'', cls_intent = ''general_processing'', cls_confidence = 1,
          cls_metadata = \<lparr> md_file_type = None, md_filename = None, md_content_length = 3 \<rparr> \<rparr>
        (PStr ''[1]'') ''6f1c''
       = json_process silent_env redis_empty (PList [PInt 1]) ''6f1c''
   \<and> py_lower ''email'' = ''email''
   \<and> route_to_agent silent_env redis_empty
        \<lparr> cls_format = ''email'', cls_intent = ''general_processing'', cls_confidence = 1,
          cls_metadata = \<lparr> md_file_type = None, md_filename = None, md_content_length = 3 \<rparr> \<rparr>
        (PStr ''a,b'') ''6f1c''
       = email_process silent_env redis_empty (PStr ''a,b'') None ''6f1c''"
proof -
  have l: "py_lower ''CSV'' = ''csv''" "py_lower ''PDF'' = ''pdf''" "py_lower ''Json'' = ''json''"
    "py_lower ''email'' = ''email''"
    by code_simp+
  have j: "json_loads ''[1]'' = Some (PList [PInt 1])" by code_simp
  let ?c = "\<lambda>f. \<lparr> cls_format = f, cls_intent = ''general_processing'', cls_confidence = 1,
          cls_metadata = \<lparr> md_file_type = None, md_filename = None, md_content_length = 3 \<rparr> \<rparr>"
  note d = route_to_agent_dispatch[of _ silent_env redis_empty _ "''6f1c''"]
  from d[of "?c ''CSV''" "PStr ''a,b''"] d[of "?c ''PDF''" "PStr ''a,b''"]
    d[of "?c ''Json''" "PStr ''[1]''"] d[of "?c ''email''" "PStr ''a,b''"]
  show ?thesis by (simp add: l j)
qed

subsection \<open>E-mail strategy\<close>

lemma analyze_email_content_cases:
  "analyze_email_content e email_body subject =
     (case llm_generate e (email_analysis_prompt email_body subject) of
        None \<Rightarrow> default_analysis
      | Some response \<Rightarrow>
          (case py_eval e response of None \<Rightarrow> default_analysis | Some v \<Rightarrow> v))"
  by (simp add: analyze_email_content_def split: option.splits)

text \<open>
  Claim C8 says that a response which is not structured data of the expected shape
  gives the fixed default analysis. The source gives the response to \<open>eval\<close> and
  returns whatever it evaluates to (its comment asks for proper JSON parsing): for the
  response \<open>42\<close> the analysis is the integer 42, not the default, and the agent then
  raises on \<open>analysis.get\<close>.
\<close>

theorem analyze_email_content_returns_evaluated_response:
  "analyze_email_content
     (silent_env\<lparr> llm_generate := (\<lambda>prompt. Some ''42''),
                  py_eval := (\<lambda>text. if text = ''42'' then Some (PInt 42) else None) \<rparr>)
     ''Please send a quote'' (Some ''RFQ'') = PInt 42
   \<and> PInt 42 \<noteq> default_analysis
   \<and> fst (email_process
        (silent_env\<lparr> llm_generate := (\<lambda>prompt. Some ''42''),
                     py_eval := (\<lambda>text. if text = ''42'' then Some (PInt 42) else None) \<rparr>)
        redis_empty (PStr ''Please send a quote'') (Some ''RFQ'') ''6f1c'')
       = Inl (AttributeError ''get'')"
  by (simp add: analyze_email_content_def default_analysis_def silent_env_def
      email_process_def email_process_text_def parse_email_structure_def
      extract_sender_info_def Let_def extract_name_from_content_def
      create_crm_record_def sender_field_def dict_get_def analysis_get_def
      parse_plain_text_email_def)

lemma extract_sender_info_email_key:
  assumes "extract_sender_info e email_body parsed = Inr sender_info"
  shows "dict_get sender_info ''email'' \<noteq> None"
  using assms
  by (auto simp: extract_sender_info_def Let_def dict_get_def
      split: option.splits sum.splits if_splits list.splits)

text \<open>
  Claim C6 says that a missing sender e-mail is replaced by \<open>unknown\<close>. The default
  of \<open>sender_info.get('email', 'unknown')\<close> applies only when the key is absent,
  and \<open>_extract_sender_info\<close> always sets the key: when no address is found in the
  From field the value is the empty string, the fingerprinted text is
  \<open>_<subject>\<close> and not \<open>unknown_<subject>\<close>.
\<close>

theorem conversation_id_without_sender_address:
  assumes "re_search e SenderAddress (pe_from parsed) = None"
    and "extract_sender_info e email_body parsed = Inr sender_info"
  shows "dict_get sender_info ''email'' = Some (PStr [])
     \<and> conversation_base_string sender_info subject = ''_'' @ subject_or subject ''no_subject''
     \<and> conversation_base_string sender_info subject
          \<noteq> ''unknown_'' @ subject_or subject ''no_subject''
     \<and> generate_conversation_id e sender_info subject
          = ''conv_'' @ take 12 (md5_hexdigest e (''_'' @ subject_or subject ''no_subject''))"
proof -
  from assms have em: "dict_get sender_info ''email'' = Some (PStr [])"
    by (auto simp: extract_sender_info_def Let_def dict_get_def
        split: option.splits sum.splits if_splits list.splits)
  then have b: "conversation_base_string sender_info subject
      = ''_'' @ subject_or subject ''no_subject''"
    by (simp add: conversation_base_string_def py_str_def)
  with em show ?thesis
    by (simp add: generate_conversation_id_def Let_def)
qed

theorem conversation_id_without_sender_address_witness:
  "re_search silent_env SenderAddress
      (pe_from (parse_email_structure silent_env ''Hello there'')) = None
   \<and> extract_sender_info silent_env ''Hello there''
        (parse_email_structure silent_env ''Hello there'')
       = Inr [(''name'', PStr ''Unknown Sender''), (''email'', PStr []),
              (''company'', PStr []), (''full_from_field'', PStr [])]
   \<and> conversation_base_string
        [(''name'', PStr ''Unknown Sender''), (''email'', PStr []),
         (''company'', PStr []), (''full_from_field'', PStr [])] (Some ''Hi'') = ''_Hi''
   \<and> generate_conversation_id silent_env
        [(''name'', PStr ''Unknown Sender''), (''email'', PStr []),
         (''company'', PStr []), (''full_from_field'', PStr [])] (Some ''Hi'')
       = ''conv_'' @ take 12 (md5_hexdigest silent_env ''_Hi'')"
proof -
  have h1: "re_search silent_env SenderAddress
      (pe_from (parse_email_structure silent_env ''Hello there'')) = None"
    by (simp add: silent_env_def)
  have h2: "extract_sender_info silent_env ''Hello there''
        (parse_email_structure silent_env ''Hello there'')
       = Inr [(''name'', PStr ''Unknown Sender''), (''email'', PStr []),
              (''company'', PStr []), (''full_from_field'', PStr [])]"
    by code_simp
  from conversation_id_without_sender_address[OF h1 h2, of "Some ''Hi''"] h1 h2
  show ?thesis by (simp add: subject_or_def)
qed

end
